theory Spec2Isabelle
  imports Complex_Main
begin

section \<open>Data model (app/db/models.py)\<close>

text \<open>
  Primary keys are UUIDs in the source; here they are natural numbers, and
  \<open>gen_random_uuid()\<close> is a counter kept in the store. A \<open>datetime\<close> is a
  number of seconds on the UTC time line. Python floats are modelled as reals;
  where a claim speaks about a floating-point tolerance the rounding of each
  operation is an explicit parameter \<open>fl\<close>. A string is a list of characters and
  \<open>length\<close> is Python's \<open>len\<close>. Columns that no modelled function reads are left
  out of the records.
\<close>

type_synonym uuid = nat
type_synonym datetime = int

datatype py_error =
    TypeError
  | ValueError
  | NoResultFound
  | MultipleResultsFound
  | IntegrityError
  | HTTPError

datatype json = JNum real | JStr string | JBool bool | JNull

datatype SourceType = RSS | API_HN | API_REDDIT | API_X | SCRAPE

datatype ClusterStatus = OPEN | MERGED | ARCHIVED

record Source =
  s_id :: uuid
  s_name :: string
  s_type :: SourceType
  s_url :: "string option"
  s_category :: "string option"
  s_enabled :: bool
  s_credibility_tier :: int
  s_metadata :: "(string \<times> json) list"

record RawItem =
  ri_id :: uuid
  ri_source_id :: uuid
  ri_external_id :: "string option"
  ri_title :: "string option"
  ri_url :: "string option"
  ri_published_at :: "datetime option"
  ri_fetched_at :: datetime
  ri_raw_payload :: "(string \<times> json) list"
  ri_raw_text :: "string option"
  ri_status :: string

record ItemEmbedding =
  ie_raw_item_id :: uuid
  embed_model :: string
  dim :: nat
  embedding :: "real list"

record Cluster =
  c_id :: uuid
  canonical_item_id :: uuid
  c_status :: ClusterStatus

record ClusterMember =
  cm_cluster_id :: uuid
  cm_raw_item_id :: uuid
  is_canonical :: bool
  similarity :: "real option"

record ItemScore =
  sc_raw_item_id :: uuid
  computed_at :: datetime
  relevance_score :: real
  novelty_score :: real
  velocity_score :: real
  cross_source_score :: real
  signal_score :: real

datatype Scope = ScopeGlobal | ScopeUser uuid

record Briefing =
  b_id :: uuid
  scope :: Scope
  period_start :: datetime
  period_end :: datetime
  summary_md :: string

record BriefingItem =
  bi_briefing_id :: uuid
  rank :: nat
  bi_raw_item_id :: "uuid option"
  bi_title :: "string option"
  one_liner :: string
  why_it_matters :: string
  confidence :: string
  bi_signal_score :: real
  bi_sources :: "string list"

record User =
  u_id :: uuid
  is_active :: bool

record UserPreference =
  up_user_id :: uuid
  topics :: "string list"

text \<open>The database: one list of rows per table, in table order.\<close>

record store =
  sources :: "Source list"
  raw_items :: "RawItem list"
  item_embeddings :: "ItemEmbedding list"
  clusters :: "Cluster list"
  cluster_members :: "ClusterMember list"
  item_scores :: "ItemScore list"
  briefings :: "Briefing list"
  briefing_items :: "BriefingItem list"
  users :: "User list"
  user_preferences :: "UserPreference list"
  next_uuid :: uuid

definition empty_store :: store where
  "empty_store = \<lparr> sources = [], raw_items = [], item_embeddings = [], clusters = [],
     cluster_members = [], item_scores = [], briefings = [], briefing_items = [],
     users = [], user_preferences = [], next_uuid = 0 \<rparr>"

text \<open>
  \<open>Result.scalar_one_or_none()\<close> and \<open>Result.scalar_one()\<close> of SQLAlchemy: more
  than one row raises, and \<open>scalar_one\<close> raises on no row as well.
\<close>

fun scalar_one_or_none :: "'a list \<Rightarrow> py_error + 'a option" where
  "scalar_one_or_none [] = Inr None"
| "scalar_one_or_none [x] = Inr (Some x)"
| "scalar_one_or_none (x # y # zs) = Inl MultipleResultsFound"

fun scalar_one :: "'a list \<Rightarrow> py_error + 'a" where
  "scalar_one [] = Inl NoResultFound"
| "scalar_one [x] = Inr x"
| "scalar_one (x # y # zs) = Inl MultipleResultsFound"

text \<open>\<open>dict.get(key, default)\<close> on a JSON payload.\<close>

definition payload_get :: "(string \<times> json) list \<Rightarrow> string \<Rightarrow> json \<Rightarrow> json" where
  "payload_get payload k d = (case map_of payload k of None \<Rightarrow> d | Some v \<Rightarrow> v)"

definition payload_has :: "(string \<times> json) list \<Rightarrow> string \<Rightarrow> bool" where
  "payload_has payload k = (map_of payload k \<noteq> None)"

text \<open>The value of a JSON entry in Python arithmetic: a string or null raises.\<close>

fun num_of :: "json \<Rightarrow> py_error + real" where
  "num_of (JNum x) = Inr x"
| "num_of (JBool b) = Inr (if b then 1 else 0)"
| "num_of (JStr s) = Inl TypeError"
| "num_of JNull = Inl TypeError"


section \<open>Scoring (app/services/scoring/service.py)\<close>

text \<open>\<open>ScoringService.WEIGHTS\<close>; only the four keys of the table are ever looked up.\<close>

definition WEIGHTS :: "(string \<times> real) list" where
  "WEIGHTS = [(''relevance'', 0.40), (''velocity'', 0.20),
              (''cross_source'', 0.20), (''novelty'', 0.20)]"

definition weight :: "string \<Rightarrow> real" where
  "weight k = (case map_of WEIGHTS k of Some w \<Rightarrow> w | None \<Rightarrow> 0)"

definition scoring_high_signal_threshold :: real where
  "scoring_high_signal_threshold = 0.6"

text \<open>
  What the LLM client contributes to one relevance computation: no client (or
  \<open>AI_SCORING_ENABLED\<close> off), a call that raises or answers with an \<open>error\<close> key,
  or a JSON answer whose \<open>score\<close> entry (default 5) is the given value.
\<close>

datatype ai_reply = AiUnavailable | AiFails | AiAnswer json

definition compute_relevance_ai :: "ai_reply \<Rightarrow> py_error + real" where
  "compute_relevance_ai reply =
     (case reply of
        AiAnswer v \<Rightarrow>
          (case num_of v of
             Inl e \<Rightarrow> Inl e
           | Inr s \<Rightarrow> Inr (max 0 (min 1 (s / 10))))
      | _ \<Rightarrow> Inl ValueError)"

definition compute_relevance_heuristic :: "RawItem \<Rightarrow> Source \<Rightarrow> py_error + real" where
  "compute_relevance_heuristic item source =
     (let score = real_of_int (s_credibility_tier source) / 5;
          score = (if (case ri_raw_text item of
                         None \<Rightarrow> False
                       | Some t \<Rightarrow> t \<noteq> [] \<and> length t > 200)
                   then score + 0.1 else score)
      in case ri_title item of
           None \<Rightarrow> Inl TypeError
         | Some t \<Rightarrow>
             Inr (max 0 (min 1 (if length t < 20 then score - 0.1 else score))))"

definition body_len :: "RawItem \<Rightarrow> nat" where
  "body_len item = (case ri_raw_text item of None \<Rightarrow> 0 | Some t \<Rightarrow> length t)"

definition title_len :: "RawItem \<Rightarrow> nat" where
  "title_len item = (case ri_title item of None \<Rightarrow> 0 | Some t \<Rightarrow> length t)"

text \<open>
  The heuristic in the words of the specification: the boost is for a body of
  at least 200 characters. It is compared with the code's function below.
\<close>

definition claimed_relevance_heuristic :: "RawItem \<Rightarrow> Source \<Rightarrow> real" where
  "claimed_relevance_heuristic item source =
     max 0 (min 1 (real_of_int (s_credibility_tier source) / 5
                   + (if body_len item \<ge> 200 then 0.1 else 0)
                   - (if title_len item < 20 then 0.1 else 0)))"

definition compute_relevance :: "ai_reply \<Rightarrow> RawItem \<Rightarrow> Source \<Rightarrow> py_error + real" where
  "compute_relevance reply item source =
     (case reply of
        AiUnavailable \<Rightarrow> compute_relevance_heuristic item source
      | _ \<Rightarrow>
          (case compute_relevance_ai reply of
             Inr r \<Rightarrow> Inr r
           | Inl e \<Rightarrow> compute_relevance_heuristic item source))"

definition compute_velocity :: "RawItem \<Rightarrow> py_error + real" where
  "compute_velocity item =
     (let payload = ri_raw_payload item;
          score0 = Inr 0.5;
          score1 = (if payload_has payload ''hn_id''
                    then (case num_of (payload_get payload ''score'' (JNum 0)) of
                            Inl e \<Rightarrow> Inl e
                          | Inr hn_score \<Rightarrow> Inr (min 1 (hn_score / 200)))
                    else score0);
          score2 = (case score1 of
                      Inl e \<Rightarrow> Inl e
                    | Inr s \<Rightarrow>
                        if payload_has payload ''reddit_id''
                        then (case num_of (payload_get payload ''score'' (JNum 0)) of
                                Inl e \<Rightarrow> Inl e
                              | Inr reddit_score \<Rightarrow>
                                  (case num_of (payload_get payload ''upvote_ratio'' (JNum 0.5)) of
                                     Inl e \<Rightarrow> Inl e
                                   | Inr upvote_ratio \<Rightarrow>
                                       Inr (min 1 ((reddit_score / 500) * upvote_ratio))))
                        else Inr s)
      in case score2 of
           Inl e \<Rightarrow> Inl e
         | Inr s \<Rightarrow> Inr (max 0 (min 1 s)))"

text \<open>
  The sub-query takes one membership row of the item (\<open>LIMIT 1\<close>, here the first
  in table order) and the outer query counts the rows of that cluster; an item in
  no cluster gives a count of 0, which \<open>or 1\<close> turns into 1.
\<close>

definition compute_cross_source :: "store \<Rightarrow> RawItem \<Rightarrow> real" where
  "compute_cross_source st item =
     (let count =
            (case filter (\<lambda>m. cm_raw_item_id m = ri_id item) (cluster_members st) of
               [] \<Rightarrow> 0
             | m # _ \<Rightarrow> length (filter (\<lambda>m'. cm_cluster_id m' = cm_cluster_id m)
                                   (cluster_members st)));
          cluster_size = (if count = 0 then 1 else count)
      in if cluster_size \<ge> 3 then 1.0
         else if cluster_size = 2 then 0.7
         else 0.3)"

definition compute_novelty :: "datetime \<Rightarrow> RawItem \<Rightarrow> real" where
  "compute_novelty now item =
     (case ri_published_at item of
        Some published \<Rightarrow>
          (let age_hours = real_of_int (now - published) / 3600
           in if age_hours < 6 then 0.9
              else if age_hours < 24 then 0.7
              else if age_hours < 72 then 0.5
              else 0.3)
      | None \<Rightarrow>
          (let age_hours = real_of_int (now - ri_fetched_at item) / 3600
           in if age_hours < 6 then 0.8
              else if age_hours < 24 then 0.6
              else 0.4))"

text \<open>
  The weighted sum as the interpreter evaluates it: every literal, product and
  sum is rounded to a double by \<open>fl\<close>, left to right.
\<close>

definition weighted_signal :: "(real \<Rightarrow> real) \<Rightarrow> real \<Rightarrow> real \<Rightarrow> real \<Rightarrow> real \<Rightarrow> real" where
  "weighted_signal fl relevance velocity cross_source novelty =
     fl (fl (fl (fl (fl (weight ''relevance'') * relevance) +
                 fl (fl (weight ''velocity'') * velocity)) +
             fl (fl (weight ''cross_source'') * cross_source)) +
         fl (fl (weight ''novelty'') * novelty))"

text \<open>
  Rounding to the nearest double on the range the sum lives in: a relative error
  of at most \<open>2^-53\<close> and, near zero, an absolute one of at most \<open>2^-1075\<close>.
\<close>

definition float_rounding :: "(real \<Rightarrow> real) \<Rightarrow> bool" where
  "float_rounding fl \<longleftrightarrow>
     (\<forall>x. \<bar>x\<bar> \<le> 2 \<longrightarrow> \<bar>fl x - x\<bar> \<le> \<bar>x\<bar> / 2 ^ 53 + 1 / 2 ^ 1075)"

definition set_status :: "uuid \<Rightarrow> string \<Rightarrow> RawItem list \<Rightarrow> RawItem list" where
  "set_status i s items = map (\<lambda>r. if ri_id r = i then r\<lparr>ri_status := s\<rparr> else r) items"

text \<open>
  \<open>ScoringService._score_item\<close>. Every computation precedes the two writes, so
  an exception leaves the session as it was. The new row's key is
  \<open>(raw_item_id, computed_at)\<close>.
\<close>

definition score_item' ::
  "(real \<Rightarrow> real) \<Rightarrow> ai_reply \<Rightarrow> datetime \<Rightarrow> store \<Rightarrow> RawItem \<Rightarrow> py_error + (ItemScore \<times> store)" where
  "score_item' fl reply now st item =
     (case scalar_one (filter (\<lambda>s. s_id s = ri_source_id item) (sources st)) of
        Inl e \<Rightarrow> Inl e
      | Inr source \<Rightarrow>
     (case compute_relevance reply item source of
        Inl e \<Rightarrow> Inl e
      | Inr relevance \<Rightarrow>
     (case compute_velocity item of
        Inl e \<Rightarrow> Inl e
      | Inr velocity \<Rightarrow>
     (let cross_source = compute_cross_source st item;
          novelty = compute_novelty now item;
          score = \<lparr> sc_raw_item_id = ri_id item, computed_at = now,
                    relevance_score = relevance, novelty_score = novelty,
                    velocity_score = velocity, cross_source_score = cross_source,
                    signal_score = weighted_signal fl relevance velocity cross_source novelty \<rparr>
      in if \<exists>s \<in> set (item_scores st).
              sc_raw_item_id s = ri_id item \<and> computed_at s = now
         then Inl IntegrityError
         else Inr (score,
                   st\<lparr> item_scores := item_scores st @ [score],
                       raw_items := set_status (ri_id item) ''scored'' (raw_items st) \<rparr>)))))"

text \<open>
  The batch of \<open>score_all\<close>: a failing item is logged and skipped. The counters
  are \<open>items_scored\<close> and \<open>high_signal_count\<close>.
\<close>

fun score_loop ::
  "(real \<Rightarrow> real) \<Rightarrow> (RawItem \<Rightarrow> ai_reply) \<Rightarrow> datetime \<Rightarrow> RawItem list \<Rightarrow> store \<times> nat \<times> nat
     \<Rightarrow> store \<times> nat \<times> nat" where
  "score_loop fl ai now [] acc = acc"
| "score_loop fl ai now (item # items) (st, items_scored, high_signal_count) =
     (case score_item' fl (ai item) now st item of
        Inl e \<Rightarrow> score_loop fl ai now items (st, items_scored, high_signal_count)
      | Inr (score, st') \<Rightarrow>
          score_loop fl ai now items
            (st', items_scored + 1,
             if signal_score score \<ge> scoring_high_signal_threshold
             then high_signal_count + 1 else high_signal_count))"

definition score_all ::
  "(real \<Rightarrow> real) \<Rightarrow> (RawItem \<Rightarrow> ai_reply) \<Rightarrow> datetime \<Rightarrow> store \<Rightarrow> store \<times> nat \<times> nat" where
  "score_all fl ai now st =
     (let items = take 200
            (filter (\<lambda>r. ri_status r = ''extracted'' \<and>
                          \<not> (\<exists>s \<in> set (item_scores st). sc_raw_item_id s = ri_id r))
                    (raw_items st))
      in score_loop fl ai now items (st, 0, 0))"


section \<open>Briefings (app/services/briefing/service.py)\<close>

text \<open>\<open>BriefingService.__init__\<close>: the threshold of the candidate query.\<close>

definition briefing_high_signal_threshold :: real where
  "briefing_high_signal_threshold = 0.5"

text \<open>
  \<open>round(x, 2)\<close>. Python rounds the exact value of the double, half to even; a
  real that lies exactly between two hundredths is rounded up here.
\<close>

definition round2 :: "real \<Rightarrow> real" where
  "round2 x = real_of_int (round (x * 100)) / 100"

text \<open>One dictionary of the \<open>signals\<close> list.\<close>

record signal =
  sg_id :: uuid
  sg_title :: "string option"
  sg_url :: "string option"
  sg_source :: string
  sg_category :: "string option"
  sg_published_at :: "datetime option"
  sg_signal_score :: real
  sg_content :: string

definition hours24 :: int where
  "hours24 = 24 * 3600"

text \<open>
  The three-table join of \<open>_get_user_signals\<close>: one row for every pair of an
  item and one of its score rows. \<open>ORDER BY signal_score DESC\<close> is a stable
  sort of the rows in table order (SQL leaves the order of equal scores open).
\<close>

definition signal_rows :: "store \<Rightarrow> (RawItem \<times> ItemScore \<times> Source) list" where
  "signal_rows st =
     concat (map (\<lambda>item.
       concat (map (\<lambda>score.
         map (\<lambda>source. (item, score, source))
             (filter (\<lambda>source. ri_source_id item = s_id source) (sources st)))
         (filter (\<lambda>score. ri_id item = sc_raw_item_id score) (item_scores st))))
       (raw_items st))"

definition order_by_signal_desc ::
  "(RawItem \<times> ItemScore \<times> Source) list \<Rightarrow> (RawItem \<times> ItemScore \<times> Source) list" where
  "order_by_signal_desc rows = sort_key (\<lambda>(item, score, source). - signal_score score) rows"

definition to_signal :: "RawItem \<times> ItemScore \<times> Source \<Rightarrow> signal" where
  "to_signal row =
     (case row of (item, score, source) \<Rightarrow>
        \<lparr> sg_id = ri_id item, sg_title = ri_title item, sg_url = ri_url item,
          sg_source = s_name source, sg_category = s_category source,
          sg_published_at = ri_published_at item,
          sg_signal_score = round2 (signal_score score),
          sg_content = (case ri_raw_text item of None \<Rightarrow> [] | Some t \<Rightarrow> take 500 t) \<rparr>)"

definition get_user_signals ::
  "nat \<Rightarrow> datetime \<Rightarrow> store \<Rightarrow> User \<Rightarrow> UserPreference option \<Rightarrow> signal list" where
  "get_user_signals max_items_per_briefing now st user preferences =
     (let cutoff = now - hours24;
          base = filter (\<lambda>(item, score, source).
                    ri_fetched_at item \<ge> cutoff \<and>
                    signal_score score \<ge> briefing_high_signal_threshold)
                  (signal_rows st);
          query = (case preferences of
                     None \<Rightarrow> base
                   | Some p \<Rightarrow>
                       if topics p \<noteq> []
                       then filter (\<lambda>(item, score, source).
                              case s_category source of
                                None \<Rightarrow> False
                              | Some c \<Rightarrow> c \<in> set (topics p)) base
                       else base);
          rows = take (max_items_per_briefing * 2) (order_by_signal_desc query)
      in map to_signal (take max_items_per_briefing rows))"

text \<open>
  An id string in the \<open>items_used\<close> list of an LLM answer: the canonical text
  of a UUID, another spelling that \<open>UUID(...)\<close> still accepts, or text that
  \<open>UUID(...)\<close> rejects.
\<close>

datatype id_text = Canonical uuid | Variant uuid | Malformed

text \<open>
  What the AI client contributes to one briefing: no client, a call that raises
  or answers with an \<open>error\<close> key, or a JSON answer with its optional
  \<open>briefing\<close> and \<open>items_used\<close> entries.
\<close>

datatype briefing_ai = NoClient | LlmFails | LlmJson "string option" "id_text list option"

record briefing_content =
  briefing :: string
  items_used :: "id_text list"

text \<open>
  The markdown of the fallback is produced by \<open>template\<close> (date and number
  formatting are not modelled); the ids are those of the first
  \<open>max_items_per_briefing\<close> signals.
\<close>

definition generate_fallback_briefing ::
  "(signal list \<Rightarrow> string) \<Rightarrow> nat \<Rightarrow> signal list \<Rightarrow> briefing_content" where
  "generate_fallback_briefing template max_items_per_briefing signals =
     \<lparr> briefing = template (take max_items_per_briefing signals),
       items_used = map (\<lambda>s. Canonical (sg_id s)) (take max_items_per_briefing signals) \<rparr>"

definition generate_briefing_content ::
  "briefing_ai \<Rightarrow> (signal list \<Rightarrow> string) \<Rightarrow> nat \<Rightarrow> signal list \<Rightarrow> briefing_content" where
  "generate_briefing_content ai template max_items_per_briefing signals =
     (case ai of
        NoClient \<Rightarrow> generate_fallback_briefing template max_items_per_briefing signals
      | LlmFails \<Rightarrow> generate_fallback_briefing template max_items_per_briefing signals
      | LlmJson b used \<Rightarrow>
          \<lparr> briefing = (case b of None \<Rightarrow> [] | Some t \<Rightarrow> t),
            items_used = (case used of
                            None \<Rightarrow> map (\<lambda>s. Canonical (sg_id s)) signals
                          | Some ids \<Rightarrow> ids) \<rparr>)"

text \<open>
  The linking loop of \<open>generate_for_user\<close>: \<open>UUID(item_id)\<close> raises on malformed
  text, which is logged and skips the row; an id that matches no signal gets the
  placeholder fields.
\<close>

definition link_item :: "uuid \<Rightarrow> signal list \<Rightarrow> nat \<Rightarrow> id_text \<Rightarrow> BriefingItem option" where
  "link_item briefing_id signals rnk item_id =
     (let signal_info = (case item_id of
                           Canonical u \<Rightarrow> List.find (\<lambda>s. sg_id s = u) signals
                         | _ \<Rightarrow> None)
      in case item_id of
           Malformed \<Rightarrow> None
         | _ \<Rightarrow>
           Some \<lparr> bi_briefing_id = briefing_id, rank = rnk,
                  bi_raw_item_id = (case item_id of Canonical u \<Rightarrow> Some u
                                    | Variant u \<Rightarrow> Some u | Malformed \<Rightarrow> None),
                  bi_title = (case signal_info of None \<Rightarrow> Some ''Unknown''
                              | Some s \<Rightarrow> sg_title s),
                  one_liner = (case signal_info of None \<Rightarrow> []
                               | Some s \<Rightarrow> take 200 (sg_content s)),
                  why_it_matters = ''High signal item'',
                  confidence = ''med'',
                  bi_signal_score = (case signal_info of None \<Rightarrow> 0
                                     | Some s \<Rightarrow> sg_signal_score s),
                  bi_sources = (case signal_info of None \<Rightarrow> []
                                | Some s \<Rightarrow> [sg_source s]) \<rparr>)"

definition link_items :: "uuid \<Rightarrow> signal list \<Rightarrow> id_text list \<Rightarrow> BriefingItem list" where
  "link_items briefing_id signals ids =
     List.map_filter (\<lambda>(rnk, item_id). link_item briefing_id signals rnk item_id)
       (zip [1 ..< Suc (length ids)] ids)"

datatype generate_result =
    ErrorDict string
  | Generated uuid uuid nat

text \<open>
  The constraints the new rows meet at commit: the title column is \<open>NOT NULL\<close>
  and \<open>raw_item_id\<close> is a foreign key into \<open>raw_items\<close>.
\<close>

definition briefing_item_ok :: "store \<Rightarrow> BriefingItem \<Rightarrow> bool" where
  "briefing_item_ok st bi \<longleftrightarrow>
     bi_title bi \<noteq> None \<and>
     (case bi_raw_item_id bi of
        None \<Rightarrow> True
      | Some u \<Rightarrow> u \<in> ri_id ` set (raw_items st))"

text \<open>
  \<open>generate_for_user\<close>. An exception leaves the session without a commit, so
  the store is the one before the call. The content is a dictionary with two
  keys and never empty, so the branch \<open>if not content\<close> is not taken. The
  returned dictionary is modelled without its word count.
\<close>

definition generate_for_user ::
  "briefing_ai \<Rightarrow> (signal list \<Rightarrow> string) \<Rightarrow> nat \<Rightarrow> datetime \<Rightarrow> store \<Rightarrow> uuid
     \<Rightarrow> py_error + (generate_result \<times> store)" where
  "generate_for_user ai template max_items_per_briefing now st user_id =
     (case scalar_one_or_none (filter (\<lambda>u. u_id u = user_id) (users st)) of
        Inl e \<Rightarrow> Inl e
      | Inr None \<Rightarrow> Inr (ErrorDict ''User not found'', st)
      | Inr (Some user) \<Rightarrow>
     (case scalar_one_or_none (filter (\<lambda>p. up_user_id p = user_id) (user_preferences st)) of
        Inl e \<Rightarrow> Inl e
      | Inr preferences \<Rightarrow>
     (let signals = get_user_signals max_items_per_briefing now st user preferences
      in if signals = [] then Inr (ErrorDict ''No high-signal items available'', st)
         else
          (let content = generate_briefing_content ai template max_items_per_briefing signals;
               bid = next_uuid st;
               new_briefing = \<lparr> b_id = bid, scope = ScopeUser user_id,
                                period_start = now - hours24, period_end = now,
                                summary_md = briefing content \<rparr>;
               new_items = link_items bid signals (items_used content)
           in if list_all (briefing_item_ok st) new_items
              then Inr (Generated bid user_id (length (items_used content)),
                        st\<lparr> briefings := briefings st @ [new_briefing],
                            briefing_items := briefing_items st @ new_items,
                            next_uuid := Suc bid \<rparr>)
              else Inl IntegrityError))))"


section \<open>Deduplication and clustering (app/services/processing/dedup.py)\<close>

definition semantic_threshold :: real where
  "semantic_threshold = 0.92"

definition time_window_days :: int where
  "time_window_days = 7"

definition days :: "int \<Rightarrow> int" where
  "days n = n * 24 * 3600"

text \<open>
  A row that repeats the primary key \<open>(cluster_id, raw_item_id)\<close> of
  \<open>cluster_members\<close> is refused by the database.
\<close>

definition member_key :: "ClusterMember \<Rightarrow> uuid \<times> uuid" where
  "member_key m = (cm_cluster_id m, cm_raw_item_id m)"

definition insert_member :: "ClusterMember \<Rightarrow> store \<Rightarrow> py_error + store" where
  "insert_member m st =
     (if member_key m \<in> member_key ` set (cluster_members st)
      then Inl IntegrityError
      else Inr (st\<lparr> cluster_members := cluster_members st @ [m] \<rparr>))"

text \<open>
  \<open>Cluster(canonical_item_id=..., status=OPEN)\<close>, \<open>session.add\<close>, \<open>flush\<close>:
  the new row and its fresh id.
\<close>

definition create_cluster :: "uuid \<Rightarrow> store \<Rightarrow> uuid \<times> store" where
  "create_cluster item_id st =
     (next_uuid st,
      st\<lparr> clusters := clusters st @
             [\<lparr> c_id = next_uuid st, canonical_item_id = item_id, c_status = OPEN \<rparr>],
          next_uuid := Suc (next_uuid st) \<rparr>)"

definition add_to_cluster :: "store \<Rightarrow> RawItem \<Rightarrow> RawItem \<Rightarrow> real \<Rightarrow> py_error + store" where
  "add_to_cluster st duplicate_item canonical_item sim =
     (case scalar_one_or_none
             (filter (\<lambda>m. cm_raw_item_id m = ri_id canonical_item \<and> is_canonical m)
                     (cluster_members st)) of
        Inl e \<Rightarrow> Inl e
      | Inr existing_member \<Rightarrow>
         (case (case existing_member of
                  Some m \<Rightarrow> Inr (cm_cluster_id m, st)
                | None \<Rightarrow>
                    (case create_cluster (ri_id canonical_item) st of
                       (cid, st1) \<Rightarrow>
                         (case insert_member
                                 \<lparr> cm_cluster_id = cid, cm_raw_item_id = ri_id canonical_item,
                                   is_canonical = True, similarity = Some 1.0 \<rparr> st1 of
                            Inl e \<Rightarrow> Inl e
                          | Inr st2 \<Rightarrow> Inr (cid, st2)))) of
            Inl e \<Rightarrow> Inl e
          | Inr (cluster_id, st') \<Rightarrow>
              insert_member
                \<lparr> cm_cluster_id = cluster_id, cm_raw_item_id = ri_id duplicate_item,
                  is_canonical = False, similarity = Some sim \<rparr> st'))"

text \<open>
  \<open>check_exact_duplicate\<close>. A comparison of a column with a Python \<open>None\<close> is
  rendered as \<open>IS NULL\<close>, so an item without url matches the rows without url.
\<close>

definition check_exact_duplicate :: "datetime \<Rightarrow> store \<Rightarrow> RawItem \<Rightarrow> py_error + (bool \<times> store)" where
  "check_exact_duplicate now st item =
     (case scalar_one_or_none
             (filter (\<lambda>r. ri_url r = ri_url item \<and> ri_id r \<noteq> ri_id item)
                     (raw_items st)) of
        Inl e \<Rightarrow> Inl e
      | Inr (Some url_match) \<Rightarrow>
          (case add_to_cluster st item url_match 1.0 of
             Inl e \<Rightarrow> Inl e
           | Inr st' \<Rightarrow> Inr (True, st'))
      | Inr None \<Rightarrow>
          (let cutoff = now - days time_window_days
           in case scalar_one_or_none
                     (filter (\<lambda>r. ri_title r = ri_title item \<and>
                                   ri_id r \<noteq> ri_id item \<and> ri_fetched_at r \<ge> cutoff)
                             (raw_items st)) of
                Inl e \<Rightarrow> Inl e
              | Inr (Some title_match) \<Rightarrow>
                  (case add_to_cluster st item title_match 1.0 of
                     Inl e \<Rightarrow> Inl e
                   | Inr st' \<Rightarrow> Inr (True, st'))
              | Inr None \<Rightarrow> Inr (False, st)))"

text \<open>
  The pgvector query: \<open>semantic_candidates\<close> is its \<open>FROM ... WHERE\<close> part and
  \<open>similarity_query\<close> adds \<open>ORDER BY similarity DESC LIMIT 5\<close>. \<open>cosine\<close> is the
  cosine similarity \<open>1 - (a <=> b)\<close> that the database computes. The rows are
  \<open>(raw_item_id, similarity)\<close> only; the order of rows with equal similarity, which
  SQL leaves open, is the table order.
\<close>

definition semantic_candidates ::
  "(real list \<Rightarrow> real list \<Rightarrow> real) \<Rightarrow> store \<Rightarrow> real list \<Rightarrow> uuid \<Rightarrow> datetime \<Rightarrow> real
     \<Rightarrow> (uuid \<times> real) list" where
  "semantic_candidates cosine st target_embedding item_id cutoff threshold =
     concat (map (\<lambda>ie.
          map (\<lambda>ri. (ie_raw_item_id ie, cosine (embedding ie) target_embedding))
            (filter (\<lambda>ri. ri_id ri = ie_raw_item_id ie \<and>
                           ie_raw_item_id ie \<noteq> item_id \<and>
                           ri_fetched_at ri \<ge> cutoff \<and>
                           cosine (embedding ie) target_embedding \<ge> threshold)
                    (raw_items st)))
          (item_embeddings st))"

definition similarity_query ::
  "(real list \<Rightarrow> real list \<Rightarrow> real) \<Rightarrow> store \<Rightarrow> real list \<Rightarrow> uuid \<Rightarrow> datetime \<Rightarrow> real
     \<Rightarrow> (uuid \<times> real) list" where
  "similarity_query cosine st target_embedding item_id cutoff threshold =
     take 5 (sort_key (\<lambda>(i, s). - s)
       (semantic_candidates cosine st target_embedding item_id cutoff threshold))"

definition check_semantic_duplicate ::
  "(real list \<Rightarrow> real list \<Rightarrow> real) \<Rightarrow> datetime \<Rightarrow> store \<Rightarrow> uuid \<Rightarrow> py_error + (bool \<times> store)" where
  "check_semantic_duplicate cosine now st item_id =
     (case scalar_one_or_none (filter (\<lambda>e. ie_raw_item_id e = item_id) (item_embeddings st)) of
        Inl e \<Rightarrow> Inl e
      | Inr None \<Rightarrow> Inr (False, st)
      | Inr (Some item_embedding) \<Rightarrow>
          (let cutoff = now - days time_window_days;
               similar_items = similarity_query cosine st (embedding item_embedding) item_id
                                 cutoff semantic_threshold
           in case similar_items of
                [] \<Rightarrow> Inr (False, st)
              | (best_match_id, sim) # _ \<Rightarrow>
                  (case scalar_one_or_none (filter (\<lambda>r. ri_id r = best_match_id) (raw_items st)) of
                     Inl e \<Rightarrow> Inl e
                   | Inr None \<Rightarrow> Inr (False, st)
                   | Inr (Some canonical_item) \<Rightarrow>
                       (case scalar_one_or_none (filter (\<lambda>r. ri_id r = item_id) (raw_items st)) of
                          Inl e \<Rightarrow> Inl e
                        | Inr None \<Rightarrow> Inr (False, st)
                        | Inr (Some item) \<Rightarrow>
                            (case add_to_cluster st item canonical_item sim of
                               Inl e \<Rightarrow> Inl e
                             | Inr st' \<Rightarrow> Inr (True, st'))))))"

text \<open>
  The branch shared by \<open>cluster_all_pending\<close> and \<open>assign_cluster\<close> for an item
  that duplicates nothing: a new cluster with the item as its canonical member.
\<close>

definition new_single_item_cluster :: "uuid \<Rightarrow> store \<Rightarrow> py_error + store" where
  "new_single_item_cluster item_id st =
     (case create_cluster item_id st of
        (cid, st1) \<Rightarrow>
          insert_member \<lparr> cm_cluster_id = cid, cm_raw_item_id = item_id,
                          is_canonical = True, similarity = Some 1.0 \<rparr> st1)"

definition mark_clustered :: "uuid \<Rightarrow> store \<Rightarrow> store" where
  "mark_clustered item_id st = st\<lparr> raw_items := set_status item_id ''clustered'' (raw_items st) \<rparr>"

datatype assign_result = NotFound | Assigned bool

definition assign_cluster ::
  "(real list \<Rightarrow> real list \<Rightarrow> real) \<Rightarrow> datetime \<Rightarrow> store \<Rightarrow> uuid
     \<Rightarrow> py_error + (assign_result \<times> store)" where
  "assign_cluster cosine now st raw_item_id =
     (case scalar_one_or_none (filter (\<lambda>r. ri_id r = raw_item_id) (raw_items st)) of
        Inl e \<Rightarrow> Inl e
      | Inr None \<Rightarrow> Inr (NotFound, st)
      | Inr (Some item) \<Rightarrow>
          (case check_semantic_duplicate cosine now st raw_item_id of
             Inl e \<Rightarrow> Inl e
           | Inr (True, st') \<Rightarrow> Inr (Assigned True, st')
           | Inr (False, st') \<Rightarrow>
               (case new_single_item_cluster (ri_id item) st' of
                  Inl e \<Rightarrow> Inl e
                | Inr st'' \<Rightarrow> Inr (Assigned False, mark_clustered (ri_id item) st''))))"

text \<open>
  One iteration of the loop of \<open>cluster_all_pending\<close>, and the loop. An
  exception raised by a query result (\<open>MultipleResultsFound\<close>) precedes every
  write of the iteration: the item is logged and skipped. A row refused by the
  database invalidates the session's transaction, so the final commit fails and
  nothing of the batch is stored.
\<close>

definition cluster_pending_item ::
  "(real list \<Rightarrow> real list \<Rightarrow> real) \<Rightarrow> datetime \<Rightarrow> store \<Rightarrow> RawItem \<Rightarrow> py_error + store" where
  "cluster_pending_item cosine now st item =
     (case check_semantic_duplicate cosine now st (ri_id item) of
        Inl e \<Rightarrow> Inl e
      | Inr (True, st') \<Rightarrow> Inr (mark_clustered (ri_id item) st')
      | Inr (False, st') \<Rightarrow>
          (case new_single_item_cluster (ri_id item) st' of
             Inl e \<Rightarrow> Inl e
           | Inr st'' \<Rightarrow> Inr (mark_clustered (ri_id item) st'')))"

fun cluster_loop ::
  "(real list \<Rightarrow> real list \<Rightarrow> real) \<Rightarrow> datetime \<Rightarrow> RawItem list \<Rightarrow> store \<Rightarrow> py_error + store" where
  "cluster_loop cosine now [] st = Inr st"
| "cluster_loop cosine now (item # items) st =
     (case cluster_pending_item cosine now st item of
        Inl IntegrityError \<Rightarrow> Inl IntegrityError
      | Inl e \<Rightarrow> cluster_loop cosine now items st
      | Inr st' \<Rightarrow> cluster_loop cosine now items st')"

definition cluster_all_pending ::
  "(real list \<Rightarrow> real list \<Rightarrow> real) \<Rightarrow> datetime \<Rightarrow> nat \<Rightarrow> store \<Rightarrow> py_error + store" where
  "cluster_all_pending cosine now limit st =
     (let items = take limit
            (filter (\<lambda>r. ri_status r = ''embedded'' \<and>
                          ri_id r \<in> ie_raw_item_id ` set (item_embeddings st) \<and>
                          ri_id r \<notin> cm_raw_item_id ` set (cluster_members st))
                    (raw_items st))
      in cluster_loop cosine now items st)"

text \<open>
  \<open>merge_clusters\<close>. The \<open>UPDATE\<close> of the members is refused when it produces
  two rows with one primary key, or moves a row to a cluster id that is not in
  \<open>clusters\<close> (foreign key).
\<close>

definition move_members :: "uuid \<Rightarrow> uuid \<Rightarrow> store \<Rightarrow> py_error + store" where
  "move_members cluster_id target_cluster_id st =
     (let members' = map (\<lambda>m. if cm_cluster_id m = cluster_id
                               then m\<lparr> cm_cluster_id := target_cluster_id, is_canonical := False \<rparr>
                               else m)
                        (cluster_members st)
      in if \<not> distinct (map member_key members') then Inl IntegrityError
         else if (\<exists>m \<in> set (cluster_members st). cm_cluster_id m = cluster_id) \<and>
                 target_cluster_id \<notin> c_id ` set (clusters st)
         then Inl IntegrityError
         else Inr (st\<lparr> cluster_members := members' \<rparr>))"

definition mark_merged :: "uuid \<Rightarrow> store \<Rightarrow> store" where
  "mark_merged cluster_id st =
     st\<lparr> clusters := map (\<lambda>c. if c_id c = cluster_id then c\<lparr> c_status := MERGED \<rparr> else c)
                          (clusters st) \<rparr>"

fun merge_loop :: "uuid \<Rightarrow> uuid list \<Rightarrow> store \<times> nat \<Rightarrow> py_error + (store \<times> nat)" where
  "merge_loop target_cluster_id [] acc = Inr acc"
| "merge_loop target_cluster_id (cluster_id # rest) (st, members_moved) =
     (case move_members cluster_id target_cluster_id st of
        Inl e \<Rightarrow> Inl e
      | Inr st' \<Rightarrow>
          merge_loop target_cluster_id rest
            (mark_merged cluster_id st',
             members_moved + length (filter (\<lambda>m. cm_cluster_id m = target_cluster_id)
                                            (cluster_members st'))))"

datatype merge_result = MergeRefused | Merged uuid nat nat

definition merge_clusters :: "uuid list \<Rightarrow> store \<Rightarrow> py_error + (merge_result \<times> store)" where
  "merge_clusters cluster_ids st =
     (case cluster_ids of
        [] \<Rightarrow> Inr (MergeRefused, st)
      | [c] \<Rightarrow> Inr (MergeRefused, st)
      | target_cluster_id # others \<Rightarrow>
          (case merge_loop target_cluster_id others (st, 0) of
             Inl e \<Rightarrow> Inl e
           | Inr (st', members_moved) \<Rightarrow>
               Inr (Merged target_cluster_id (length cluster_ids - 1) members_moved, st')))"

text \<open>
  A clustering operation as the workers issue it, each in a transaction of its
  own: an operation that raises leaves the store as it was.
\<close>

datatype cluster_op =
    ExactDuplicate datetime uuid
  | AssignCluster datetime uuid
  | ClusterAllPending datetime nat
  | MergeClusters "uuid list"

definition apply_cluster_op ::
  "(real list \<Rightarrow> real list \<Rightarrow> real) \<Rightarrow> cluster_op \<Rightarrow> store \<Rightarrow> store" where
  "apply_cluster_op cosine op st =
     (case op of
        ExactDuplicate now item_id \<Rightarrow>
          (case List.find (\<lambda>r. ri_id r = item_id) (raw_items st) of
             None \<Rightarrow> st
           | Some item \<Rightarrow>
               (case check_exact_duplicate now st item of
                  Inl e \<Rightarrow> st
                | Inr (dup, st') \<Rightarrow> st'))
      | AssignCluster now item_id \<Rightarrow>
          (case assign_cluster cosine now st item_id of
             Inl e \<Rightarrow> st
           | Inr (r, st') \<Rightarrow> st')
      | ClusterAllPending now limit \<Rightarrow>
          (case cluster_all_pending cosine now limit st of
             Inl e \<Rightarrow> st
           | Inr st' \<Rightarrow> st')
      | MergeClusters cluster_ids \<Rightarrow>
          (case merge_clusters cluster_ids st of
             Inl e \<Rightarrow> st
           | Inr (r, st') \<Rightarrow> st'))"

fun apply_cluster_ops ::
  "(real list \<Rightarrow> real list \<Rightarrow> real) \<Rightarrow> cluster_op list \<Rightarrow> store \<Rightarrow> store" where
  "apply_cluster_ops cosine [] st = st"
| "apply_cluster_ops cosine (op # ops) st = apply_cluster_ops cosine ops (apply_cluster_op cosine op st)"


text \<open>
  The canonical members of a cluster, and the two readings of ``exactly one
  canonical member, of similarity 1.0'': for every cluster (the words of the
  specification), and for every cluster that has not been merged away, a merged
  one having none.
\<close>

definition canonical_members :: "store \<Rightarrow> uuid \<Rightarrow> ClusterMember list" where
  "canonical_members st cid =
     filter (\<lambda>m. cm_cluster_id m = cid \<and> is_canonical m) (cluster_members st)"

definition one_canonical :: "store \<Rightarrow> uuid \<Rightarrow> bool" where
  "one_canonical st cid \<longleftrightarrow>
     (case canonical_members st cid of
        [m] \<Rightarrow> similarity m = Some 1
      | _ \<Rightarrow> False)"

definition every_cluster_has_one_canonical :: "store \<Rightarrow> bool" where
  "every_cluster_has_one_canonical st \<longleftrightarrow>
     list_all (\<lambda>c. one_canonical st (c_id c)) (clusters st)"

definition canonical_invariant :: "store \<Rightarrow> bool" where
  "canonical_invariant st \<longleftrightarrow>
     list_all (\<lambda>c. if c_status c = MERGED then canonical_members st (c_id c) = []
                     else one_canonical st (c_id c))
              (clusters st)"

text \<open>Ids in the cluster tables were handed out by the id counter.\<close>

definition cluster_store_wf :: "store \<Rightarrow> bool" where
  "cluster_store_wf st \<longleftrightarrow>
     list_all (\<lambda>c. c_id c < next_uuid st) (clusters st) \<and>
     list_all (\<lambda>m. cm_cluster_id m < next_uuid st) (cluster_members st)"

definition cluster_inv :: "store \<Rightarrow> bool" where
  "cluster_inv st \<longleftrightarrow> cluster_store_wf st \<and> canonical_invariant st"


section \<open>Ingestion (app/services/ingestion)\<close>

record settings =
  MAX_ITEMS_PER_SOURCE :: int
  OPENAI_API_KEY :: "string option"

record NormalizedItem =
  n_external_id :: string
  n_url :: string
  n_title :: string
  n_raw_text :: "string option"
  n_published_at :: "datetime option"
  n_canonical_url :: "string option"
  n_raw_payload :: "(string \<times> json) list"

text \<open>The slice \<open>xs[:n]\<close>: a negative \<open>n\<close> drops that many elements from the end.\<close>

definition py_take :: "int \<Rightarrow> 'a list \<Rightarrow> 'a list" where
  "py_take n xs = (if n \<ge> 0 then take (nat n) xs else take (length xs - nat (- n)) xs)"

definition is_space :: "char \<Rightarrow> bool" where
  "is_space c \<longleftrightarrow> c \<in> set [CHR '' '', CHR 0x09, CHR 0x0A, CHR 0x0B, CHR 0x0C, CHR 0x0D]"

definition strip :: "string \<Rightarrow> string" where
  "strip s = rev (dropWhile is_space (rev (dropWhile is_space s)))"

text \<open>\<open>a or b\<close> on optional strings: the first that is neither \<open>None\<close> nor empty.\<close>

definition truthy :: "string option \<Rightarrow> bool" where
  "truthy v \<longleftrightarrow> (case v of None \<Rightarrow> False | Some t \<Rightarrow> t \<noteq> [])"

definition py_or :: "string option \<Rightarrow> string option \<Rightarrow> string option" where
  "py_or a b = (if truthy a then a else b)"

definition json_of :: "string option \<Rightarrow> json" where
  "json_of v = (case v of None \<Rightarrow> JNull | Some t \<Rightarrow> JStr t)"

subsection \<open>Feeds (rss.py)\<close>

text \<open>An entry as feedparser delivers it; \<open>e_published\<close> is the parsed date.\<close>

record rss_entry =
  e_id :: "string option"
  e_guid :: "string option"
  e_link :: "string option"
  e_title :: "string option"
  e_summary :: "string option"
  e_description :: "string option"
  e_author :: "string option"
  e_published :: "datetime option"

definition parse_entry :: "rss_entry \<Rightarrow> NormalizedItem option" where
  "parse_entry entry =
     (let external_id = py_or (e_id entry) (py_or (e_guid entry) (e_link entry));
          url = e_link entry;
          title = strip (case e_title entry of None \<Rightarrow> [] | Some t \<Rightarrow> t);
          raw_text = (if truthy (e_summary entry) then map_option (take 2000) (e_summary entry)
                      else if truthy (e_description entry)
                      then map_option (take 2000) (e_description entry)
                      else None)
      in if \<not> truthy external_id then None
         else if \<not> truthy url then None
         else if title = [] then None
         else Some \<lparr> n_external_id = the external_id, n_url = the url, n_title = title,
                     n_raw_text = raw_text, n_published_at = e_published entry,
                     n_canonical_url = url,
                     n_raw_payload = [(''id'', json_of (e_id entry)),
                                      (''guid'', json_of (e_guid entry))] \<rparr>)"

text \<open>
  \<open>RSSIngester.fetch\<close>: the response is an HTTP error or the parsed entries.
  The slice bound is the literal 100; the settings are not read.
\<close>

definition rss_fetch :: "settings \<Rightarrow> py_error + rss_entry list \<Rightarrow> py_error + NormalizedItem list" where
  "rss_fetch cfg response =
     (case response of
        Inl e \<Rightarrow> Inl e
      | Inr entries \<Rightarrow> Inr (List.map_filter parse_entry (take 100 entries)))"

subsection \<open>Hacker News (hackernews.py)\<close>

fun str_nat :: "nat \<Rightarrow> string" where
  "str_nat n = (if n < 10 then [char_of (48 + n)]
                else str_nat (n div 10) @ [char_of (48 + n mod 10)])"

definition str_int :: "int \<Rightarrow> string" where
  "str_int i = (if i < 0 then CHR ''-'' # str_nat (nat (- i)) else str_nat (nat i))"

record hn_story =
  h_type :: "string option"
  h_deleted :: bool
  h_dead :: bool
  h_title :: "string option"
  h_url :: "string option"
  h_text :: "string option"
  h_time :: "datetime option"
  h_score :: "json option"
  h_by :: "string option"

definition HN_ITEM_URL :: string where
  "HN_ITEM_URL = ''https://news.ycombinator.com/item?id=''"

text \<open>
  \<open>_fetch_story\<close>: \<open>item_api\<close> is the answer of the item endpoint, an HTTP error
  or the JSON value (\<open>None\<close> for \<open>null\<close>).
\<close>

definition fetch_story ::
  "(int \<Rightarrow> py_error + hn_story option) \<Rightarrow> int \<Rightarrow> py_error + NormalizedItem option" where
  "fetch_story item_api story_id =
     (case item_api story_id of
        Inl e \<Rightarrow> Inl e
      | Inr None \<Rightarrow> Inr None
      | Inr (Some story) \<Rightarrow>
          if h_type story \<noteq> Some ''story'' then Inr None
          else if h_deleted story \<or> h_dead story then Inr None
          else
            (let title = strip (case h_title story of None \<Rightarrow> [] | Some t \<Rightarrow> t)
             in if title = [] then Inr None
                else Inr (Some
                  \<lparr> n_external_id = str_int story_id,
                    n_url = (if truthy (h_url story) then the (h_url story)
                             else HN_ITEM_URL @ str_int story_id),
                    n_title = title,
                    n_raw_text = h_text story,
                    n_published_at = h_time story,
                    n_canonical_url = h_url story,
                    n_raw_payload =
                      [(''hn_id'', JNum (real_of_int story_id)),
                       (''score'', (case h_score story of None \<Rightarrow> JNum 0 | Some v \<Rightarrow> v)),
                       (''by'', json_of (h_by story)),
                       (''type'', json_of (h_type story))] \<rparr>)))"

text \<open>
  \<open>HackerNewsIngester.fetch\<close>: \<open>listing\<close> is the answer of the stories endpoint.
  A story that fails is logged and skipped.
\<close>

definition hn_fetch ::
  "settings \<Rightarrow> py_error + int list \<Rightarrow> (int \<Rightarrow> py_error + hn_story option)
     \<Rightarrow> py_error + NormalizedItem list" where
  "hn_fetch cfg listing item_api =
     (case listing of
        Inl e \<Rightarrow> Inl e
      | Inr ids \<Rightarrow>
          Inr (List.map_filter
                 (\<lambda>story_id. case fetch_story item_api story_id of
                                Inl e \<Rightarrow> None
                              | Inr item \<Rightarrow> item)
                 (py_take (MAX_ITEMS_PER_SOURCE cfg) ids)))"

subsection \<open>Reddit (reddit.py)\<close>

text \<open>
  A post of the listing; \<open>p_removed\<close> stands for
  \<open>removed_by_category or removed\<close>.
\<close>

record reddit_post =
  p_id :: "string option"
  p_title :: "string option"
  p_removed :: bool
  p_url :: "string option"
  p_permalink :: "string option"
  p_is_self :: bool
  p_selftext :: "string option"
  p_created_utc :: "datetime option"
  p_score :: "json option"
  p_upvote_ratio :: "json option"

definition parse_post :: "reddit_post \<Rightarrow> NormalizedItem option" where
  "parse_post post =
     (let title = strip (case p_title post of None \<Rightarrow> [] | Some t \<Rightarrow> t);
          permalink = ''https://reddit.com'' @ (case p_permalink post of None \<Rightarrow> [] | Some t \<Rightarrow> t);
          url = (if \<not> truthy (p_url post) \<or> take 3 (the (p_url post)) = ''/r/''
                 then permalink else the (p_url post))
      in if \<not> truthy (p_id post) then None
         else if title = [] then None
         else if p_removed post then None
         else Some \<lparr> n_external_id = the (p_id post), n_url = url, n_title = title,
                     n_raw_text = (if truthy (p_selftext post)
                                   then map_option (take 2000) (p_selftext post) else None),
                     n_published_at = p_created_utc post,
                     n_canonical_url = (if p_is_self post then None else p_url post),
                     n_raw_payload =
                       [(''reddit_id'', json_of (p_id post)),
                        (''score'', (case p_score post of None \<Rightarrow> JNum 0 | Some v \<Rightarrow> v)),
                        (''upvote_ratio'',
                           (case p_upvote_ratio post of None \<Rightarrow> JNum 0 | Some v \<Rightarrow> v)),
                        (''is_self'', JBool (p_is_self post))] \<rparr>)"

text \<open>The text after the first occurrence of \<open>sep\<close>, if there is one.\<close>

fun after_first :: "string \<Rightarrow> string \<Rightarrow> string option" where
  "after_first sep [] = (if sep = [] then Some [] else None)"
| "after_first sep (c # cs) =
     (if take (length sep) (c # cs) = sep then Some (drop (length sep) (c # cs))
      else after_first sep cs)"

definition subreddit_of :: "Source \<Rightarrow> string option" where
  "subreddit_of source =
     (case payload_get (s_metadata source) ''subreddit'' JNull of
        JStr name \<Rightarrow>
          if name \<noteq> [] then Some name
          else map_option (takeWhile (\<lambda>c. c \<noteq> CHR ''/''))
                 (after_first ''/r/'' (case s_url source of None \<Rightarrow> [] | Some u \<Rightarrow> u))
      | _ \<Rightarrow> map_option (takeWhile (\<lambda>c. c \<noteq> CHR ''/''))
               (after_first ''/r/'' (case s_url source of None \<Rightarrow> [] | Some u \<Rightarrow> u)))"

text \<open>
  \<open>RedditIngester.fetch\<close>. \<open>token\<close> is the outcome of the OAuth request;
  \<open>listing authenticated subreddit limit\<close> is the answer of the listing endpoint
  to a request with that \<open>limit\<close> parameter (sort and time filter belong to the
  request as well and are left out). The posts of the answer are all parsed:
  the bound on their number is the one the server applies.
\<close>

definition reddit_fetch ::
  "settings \<Rightarrow> py_error + string \<Rightarrow> (bool \<Rightarrow> string \<Rightarrow> int \<Rightarrow> py_error + reddit_post list)
     \<Rightarrow> Source \<Rightarrow> py_error + NormalizedItem list" where
  "reddit_fetch cfg token listing source =
     (case subreddit_of source of
        None \<Rightarrow> Inr []
      | Some subreddit \<Rightarrow>
          (case token of
             Inl e \<Rightarrow>
               (case listing False subreddit (min 25 (MAX_ITEMS_PER_SOURCE cfg)) of
                  Inl e' \<Rightarrow> Inl e'
                | Inr posts \<Rightarrow> Inr (List.map_filter parse_post posts))
           | Inr t \<Rightarrow>
               (case listing True subreddit (MAX_ITEMS_PER_SOURCE cfg) of
                  Inl e' \<Rightarrow> Inl e'
                | Inr posts \<Rightarrow> Inr (List.map_filter parse_post posts))))"

subsection \<open>The shared base (base.py)\<close>

definition item_exists :: "store \<Rightarrow> uuid \<Rightarrow> string \<Rightarrow> bool" where
  "item_exists st source_id external_id \<longleftrightarrow>
     (\<exists>r \<in> set (raw_items st).
        ri_source_id r = source_id \<and> ri_external_id r = Some external_id)"

definition new_raw_item :: "store \<Rightarrow> datetime \<Rightarrow> uuid \<Rightarrow> NormalizedItem \<Rightarrow> RawItem" where
  "new_raw_item st now source_id item =
     \<lparr> ri_id = next_uuid st, ri_source_id = source_id,
       ri_external_id = Some (n_external_id item), ri_title = Some (n_title item),
       ri_url = Some (n_url item), ri_published_at = n_published_at item,
       ri_fetched_at = now, ri_raw_payload = n_raw_payload item,
       ri_raw_text = n_raw_text item, ri_status = ''new'' \<rparr>"

text \<open>
  The loop of \<open>BaseIngester.ingest\<close>. \<open>rejects item\<close> says that the database
  refuses the row at \<open>flush\<close>; the handler then rolls the session back to
  \<open>st0\<close>, the store at the start of the run, and the counter keeps its value.
\<close>

fun ingest_loop ::
  "(NormalizedItem \<Rightarrow> bool) \<Rightarrow> datetime \<Rightarrow> uuid \<Rightarrow> store \<Rightarrow> NormalizedItem list \<Rightarrow> store \<times> nat
     \<Rightarrow> store \<times> nat" where
  "ingest_loop rejects now source_id st0 [] acc = acc"
| "ingest_loop rejects now source_id st0 (item # items) (st, inserted_count) =
     (if item_exists st source_id (n_external_id item)
      then ingest_loop rejects now source_id st0 items (st, inserted_count)
      else if rejects item
      then ingest_loop rejects now source_id st0 items (st0, inserted_count)
      else ingest_loop rejects now source_id st0 items
             (st\<lparr> raw_items := raw_items st @ [new_raw_item st now source_id item],
                  next_uuid := Suc (next_uuid st) \<rparr>,
              inserted_count + 1))"

datatype ingest_result =
    IngestError
  | IngestSkipped
  | Ingested nat nat

text \<open>
  \<open>BaseIngester.ingest\<close>; \<open>fetch\<close> is the ingester's \<open>fetch\<close> with the answers
  of the remote site fixed. \<open>Ingested f i\<close> stands for the dictionary with
  \<open>items_fetched = f\<close> and \<open>items_inserted = i\<close>.
\<close>

definition ingest ::
  "(Source \<Rightarrow> py_error + NormalizedItem list) \<Rightarrow> (NormalizedItem \<Rightarrow> bool) \<Rightarrow> datetime \<Rightarrow> store
     \<Rightarrow> uuid \<Rightarrow> py_error + (ingest_result \<times> store)" where
  "ingest fetch rejects now st source_id =
     (case scalar_one_or_none (filter (\<lambda>s. s_id s = source_id) (sources st)) of
        Inl e \<Rightarrow> Inl e
      | Inr None \<Rightarrow> Inr (IngestError, st)
      | Inr (Some source) \<Rightarrow>
          if \<not> s_enabled source then Inr (IngestSkipped, st)
          else
            (case fetch source of
               Inl e \<Rightarrow> Inr (IngestError, st)
             | Inr items \<Rightarrow>
                 (case ingest_loop rejects now source_id st items (st, 0) of
                    (st', inserted_count) \<Rightarrow>
                      Inr (Ingested (length items) inserted_count, st'))))"


section \<open>Embeddings (app/services/processing/embeddings.py)\<close>

definition dimension :: nat where
  "dimension = 1536"

definition model :: string where
  "model = ''text-embedding-ada-002''"

text \<open>
  The state of numpy's process-wide generator is the sequence of the normal
  samples it will deliver next; \<open>randn n\<close> takes the first \<open>n\<close> of them.
\<close>

type_synonym rng = "nat \<Rightarrow> real"

definition randn :: "nat \<Rightarrow> rng \<Rightarrow> real list \<times> rng" where
  "randn n g = (map g [0 ..< n], (\<lambda>i. g (i + n)))"

definition generate_dummy_embedding :: "rng \<Rightarrow> real list \<times> rng" where
  "generate_dummy_embedding g = randn dimension g"

text \<open>
  \<open>_generate_embedding\<close>. With a key the provider is called; the call raises, or
  it answers and the usage tracking that follows refers to a name the module
  never imports: both ways the handler returns \<open>None\<close>.
\<close>

definition generate_embedding ::
  "settings \<Rightarrow> py_error + real list \<Rightarrow> rng \<Rightarrow> string \<Rightarrow> real list option \<times> rng" where
  "generate_embedding cfg provider g text =
     (if \<not> truthy (OPENAI_API_KEY cfg)
      then (case generate_dummy_embedding g of (v, g') \<Rightarrow> (Some v, g'))
      else (case provider of
              Inl e \<Rightarrow> (None, g)
            | Inr v \<Rightarrow> (None, g)))"

text \<open>\<open>generate_for_item\<close>: the vector is stored when it is not empty.\<close>

definition generate_for_item ::
  "settings \<Rightarrow> py_error + real list \<Rightarrow> rng \<Rightarrow> store \<Rightarrow> uuid \<Rightarrow> string
     \<Rightarrow> real list option \<times> rng \<times> store" where
  "generate_for_item cfg provider g st item_id text =
     (case generate_embedding cfg provider g text of
        (None, g') \<Rightarrow> (None, g', st)
      | (Some v, g') \<Rightarrow>
          (Some v, g',
           if v = [] then st
           else st\<lparr> item_embeddings := item_embeddings st @
                      [\<lparr> ie_raw_item_id = item_id, embed_model = model,
                         dim = dimension, embedding = v \<rparr>] \<rparr>))"


section \<open>Example data\<close>

definition feed_source :: Source where
  "feed_source = \<lparr> s_id = 3, s_name = ''Feed'', s_type = RSS, s_url = Some ''http://feed'',
      s_category = Some ''tech'', s_enabled = True, s_credibility_tier = 3,
      s_metadata = [] \<rparr>"

definition item_body_200 :: RawItem where
  "item_body_200 = \<lparr> ri_id = 5, ri_source_id = 3, ri_external_id = Some ''e1'',
      ri_title = Some (replicate 20 CHR ''t''), ri_url = Some ''http://a'',
      ri_published_at = None, ri_fetched_at = 0, ri_raw_payload = [],
      ri_raw_text = Some (replicate 200 CHR ''b''), ri_status = ''extracted'' \<rparr>"

definition one_item_store :: store where
  "one_item_store = empty_store\<lparr> sources := [feed_source], raw_items := [item_body_200],
      next_uuid := 6 \<rparr>"

definition item_body_200_score :: ItemScore where
  "item_body_200_score = \<lparr> sc_raw_item_id = 5, computed_at = 0,
      relevance_score = 3/5, novelty_score = 4/5, velocity_score = 1/2,
      cross_source_score = 3/10, signal_score = 14/25 \<rparr>"

definition reader :: User where
  "reader = \<lparr> u_id = 7, is_active = True \<rparr>"

definition low_signal_item :: RawItem where
  "low_signal_item = \<lparr> ri_id = 11, ri_source_id = 3, ri_external_id = Some ''e1'',
      ri_title = Some ''A story of modest signal'', ri_url = Some ''http://a'',
      ri_published_at = None, ri_fetched_at = 96400, ri_raw_payload = [],
      ri_raw_text = Some ''body'', ri_status = ''scored'' \<rparr>"

definition low_signal_score :: ItemScore where
  "low_signal_score = \<lparr> sc_raw_item_id = 11, computed_at = 96500,
      relevance_score = 3/5, novelty_score = 4/5, velocity_score = 1/2,
      cross_source_score = 1/4, signal_score = 11/20 \<rparr>"

definition low_signal_store :: store where
  "low_signal_store = empty_store\<lparr> sources := [feed_source], raw_items := [low_signal_item],
      item_scores := [low_signal_score], users := [reader], next_uuid := 12 \<rparr>"

definition low_signal_link :: BriefingItem where
  "low_signal_link = \<lparr> bi_briefing_id = 12, rank = 1, bi_raw_item_id = Some 11,
      bi_title = Some ''A story of modest signal'', one_liner = ''body'',
      why_it_matters = ''High signal item'', confidence = ''med'',
      bi_signal_score = 11/20, bi_sources = [''Feed''] \<rparr>"

definition reader_store :: store where
  "reader_store = empty_store\<lparr> sources := [feed_source], users := [reader], next_uuid := 8 \<rparr>"

definition zero_limit_settings :: settings where
  "zero_limit_settings = \<lparr> MAX_ITEMS_PER_SOURCE = 0, OPENAI_API_KEY = None \<rparr>"

definition one_entry :: rss_entry where
  "one_entry = \<lparr> e_id = Some ''guid-1'', e_guid = None, e_link = Some ''http://a/1'',
      e_title = Some ''A headline'', e_summary = None, e_description = None,
      e_author = None, e_published = None \<rparr>"

definition one_entry_item :: NormalizedItem where
  "one_entry_item = \<lparr> n_external_id = ''guid-1'', n_url = ''http://a/1'', n_title = ''A headline'',
      n_raw_text = None, n_published_at = None, n_canonical_url = Some ''http://a/1'',
      n_raw_payload = [(''id'', JStr ''guid-1''), (''guid'', JNull)] \<rparr>"

definition feed_only_store :: store where
  "feed_only_store = empty_store\<lparr> sources := [feed_source], next_uuid := 4 \<rparr>"

definition no_key_settings :: settings where
  "no_key_settings = \<lparr> MAX_ITEMS_PER_SOURCE = 100, OPENAI_API_KEY = None \<rparr>"

definition counting_rng :: rng where
  "counting_rng = (\<lambda>i. real i)"

definition constant_cosine :: "real list \<Rightarrow> real list \<Rightarrow> real" where
  "constant_cosine a b = 19/20"

definition plain_item :: "uuid \<Rightarrow> string \<Rightarrow> datetime option \<Rightarrow> RawItem" where
  "plain_item i t published =
     \<lparr> ri_id = i, ri_source_id = 3, ri_external_id = Some t, ri_title = Some t,
       ri_url = Some t, ri_published_at = published, ri_fetched_at = 900,
       ri_raw_payload = [], ri_raw_text = None, ri_status = ''embedded'' \<rparr>"


definition two_item_store :: store where
  "two_item_store = empty_store\<lparr> sources := [feed_source],
      raw_items := [plain_item 41 ''a'' None, plain_item 42 ''b'' None], next_uuid := 50 \<rparr>"

definition two_clusters_store :: store where
  "two_clusters_store = two_item_store\<lparr>
      raw_items := [(plain_item 41 ''a'' None)\<lparr> ri_status := ''clustered'' \<rparr>,
                    (plain_item 42 ''b'' None)\<lparr> ri_status := ''clustered'' \<rparr>],
      clusters := [\<lparr> c_id = 50, canonical_item_id = 41, c_status = OPEN \<rparr>,
                   \<lparr> c_id = 51, canonical_item_id = 42, c_status = OPEN \<rparr>],
      cluster_members := [\<lparr> cm_cluster_id = 50, cm_raw_item_id = 41, is_canonical = True,
                            similarity = Some 1 \<rparr>,
                          \<lparr> cm_cluster_id = 51, cm_raw_item_id = 42, is_canonical = True,
                            similarity = Some 1 \<rparr>],
      next_uuid := 52 \<rparr>"

definition merged_store :: store where
  "merged_store = two_clusters_store\<lparr>
      clusters := [\<lparr> c_id = 50, canonical_item_id = 41, c_status = OPEN \<rparr>,
                   \<lparr> c_id = 51, canonical_item_id = 42, c_status = MERGED \<rparr>],
      cluster_members := [\<lparr> cm_cluster_id = 50, cm_raw_item_id = 41, is_canonical = True,
                            similarity = Some 1 \<rparr>,
                          \<lparr> cm_cluster_id = 50, cm_raw_item_id = 42, is_canonical = False,
                            similarity = Some 1 \<rparr>] \<rparr>"









section \<open>Properties of the scorer\<close>

lemma weight_simps:
  "weight ''relevance'' = 2/5" "weight ''velocity'' = 1/5"
  "weight ''cross_source'' = 1/5" "weight ''novelty'' = 1/5"
  by (simp_all add: weight_def WEIGHTS_def)

lemma fl_close:
  assumes "float_rounding fl" and "\<bar>x\<bar> \<le> 2"
  shows "\<bar>fl x - x\<bar> \<le> 3 / 2 ^ 53"
proof -
  have a: "\<bar>fl x - x\<bar> \<le> \<bar>x\<bar> / 2 ^ 53 + 1 / 2 ^ 1075"
    using assms by (simp add: float_rounding_def)
  have b: "\<bar>x\<bar> / 2 ^ 53 \<le> 2 / 2 ^ 53"
    using assms(2) by (simp add: divide_right_mono)
  have c: "(1::real) / 2 ^ 1075 \<le> 1 / 2 ^ 53"
    by (rule divide_left_mono) (simp_all add: power_increasing)
  from a b c show ?thesis by linarith
qed

lemma fl_prod:
  assumes fr: "float_rounding fl" and w: "0 \<le> w" "w \<le> 1/2" and a: "0 \<le> a" "a \<le> 1"
  shows "\<bar>fl (fl w * a) - w * a\<bar> \<le> 6 / 2 ^ 53"
proof -
  let ?u = "(3::real) / 2 ^ 53"
  have u: "?u \<le> 1" by simp
  have w1: "\<bar>fl w - w\<bar> \<le> ?u" using fl_close [OF fr, of w] w by simp
  have "\<bar>fl w * a - w * a\<bar> = \<bar>fl w - w\<bar> * a"
    using a by (simp add: abs_mult left_diff_distrib [symmetric])
  also have "\<dots> \<le> ?u * 1"
    by (rule mult_mono) (use w1 a in simp_all)
  finally have p: "\<bar>fl w * a - w * a\<bar> \<le> ?u" by simp
  have lo: "0 \<le> w * a" using w a by simp
  have "w * a \<le> 1/2 * 1" by (rule mult_mono) (use w a in simp_all)
  then have hi: "w * a \<le> 1" by simp
  have "\<bar>fl w * a\<bar> \<le> 2" using p u lo hi by linarith
  then have "\<bar>fl (fl w * a) - fl w * a\<bar> \<le> ?u" by (rule fl_close [OF fr])
  with p show ?thesis by linarith
qed

lemma weighted_signal_close:
  assumes fr: "float_rounding fl"
    and "0 \<le> r" "r \<le> 1" "0 \<le> v" "v \<le> 1" "0 \<le> c" "c \<le> 1" "0 \<le> n" "n \<le> 1"
  shows "\<bar>weighted_signal fl r v c n - (0.40 * r + 0.20 * v + 0.20 * c + 0.20 * n)\<bar> \<le> 1 / 10 ^ 9"
proof -
  let ?u = "(3::real) / 2 ^ 53"
  define pr where "pr = fl (fl (2/5) * r)"
  define pv where "pv = fl (fl (1/5) * v)"
  define pc where "pc = fl (fl (1/5) * c)"
  define pn where "pn = fl (fl (1/5) * n)"
  have er: "\<bar>pr - 2/5 * r\<bar> \<le> 2 * ?u"
    unfolding pr_def using fl_prod [OF fr, of "2/5" r] assms by simp
  have ev: "\<bar>pv - 1/5 * v\<bar> \<le> 2 * ?u"
    unfolding pv_def using fl_prod [OF fr, of "1/5" v] assms by simp
  have ec: "\<bar>pc - 1/5 * c\<bar> \<le> 2 * ?u"
    unfolding pc_def using fl_prod [OF fr, of "1/5" c] assms by simp
  have en: "\<bar>pn - 1/5 * n\<bar> \<le> 2 * ?u"
    unfolding pn_def using fl_prod [OF fr, of "1/5" n] assms by simp
  have u: "?u \<le> 1 / 100" by simp
  have br: "0 \<le> 2/5 * r" "2/5 * r \<le> 2/5" using assms by simp_all
  have bv: "0 \<le> 1/5 * v" "1/5 * v \<le> 1/5" using assms by simp_all
  have bc: "0 \<le> 1/5 * c" "1/5 * c \<le> 1/5" using assms by simp_all
  have bn: "0 \<le> 1/5 * n" "1/5 * n \<le> 1/5" using assms by simp_all
  define s1 where "s1 = fl (pr + pv)"
  define s2 where "s2 = fl (s1 + pc)"
  define s3 where "s3 = fl (s2 + pn)"
  have "\<bar>pr + pv\<bar> \<le> 2" using er ev br bv u by linarith
  then have e1: "\<bar>s1 - (pr + pv)\<bar> \<le> ?u" unfolding s1_def by (rule fl_close [OF fr])
  have "\<bar>s1 + pc\<bar> \<le> 2" using e1 er ev ec br bv bc u by linarith
  then have e2: "\<bar>s2 - (s1 + pc)\<bar> \<le> ?u" unfolding s2_def by (rule fl_close [OF fr])
  have "\<bar>s2 + pn\<bar> \<le> 2" using e2 e1 er ev ec en br bv bc bn u by linarith
  then have e3: "\<bar>s3 - (s2 + pn)\<bar> \<le> ?u" unfolding s3_def by (rule fl_close [OF fr])
  have tot: "\<bar>s3 - (2/5 * r + 1/5 * v + 1/5 * c + 1/5 * n)\<bar> \<le> 11 * ?u"
    using e1 e2 e3 er ev ec en by linarith
  have small: "11 * ?u \<le> (1::real) / 10 ^ 9" by simp
  have "weighted_signal fl r v c n = s3"
    by (simp add: weighted_signal_def weight_simps s3_def s2_def s1_def pr_def pv_def pc_def pn_def)
  with tot small show ?thesis by simp
qed

lemma heuristic_range:
  "compute_relevance_heuristic item source = Inr r \<Longrightarrow> 0 \<le> r \<and> r \<le> 1"
  by (auto simp: compute_relevance_heuristic_def Let_def split: option.splits)

lemma ai_range:
  "compute_relevance_ai reply = Inr r \<Longrightarrow> 0 \<le> r \<and> r \<le> 1"
  by (auto simp: compute_relevance_ai_def split: ai_reply.splits sum.splits)

lemma relevance_range:
  "compute_relevance reply item source = Inr r \<Longrightarrow> 0 \<le> r \<and> r \<le> 1"
  unfolding compute_relevance_def
  by (auto split: ai_reply.splits sum.splits dest: heuristic_range ai_range)

lemma velocity_range:
  "compute_velocity item = Inr v \<Longrightarrow> 0 \<le> v \<and> v \<le> 1"
  by (auto simp: compute_velocity_def Let_def split: sum.splits if_splits)

lemma cross_source_range:
  "0 \<le> compute_cross_source st item \<and> compute_cross_source st item \<le> 1"
  by (simp add: compute_cross_source_def Let_def)

lemma novelty_range:
  "0 \<le> compute_novelty now item \<and> compute_novelty now item \<le> 1"
  by (simp add: compute_novelty_def Let_def split: option.splits)

lemma score_item'_fields:
  assumes "score_item' fl reply now st item = Inr (score, st')"
  shows "\<exists>source r v.
           compute_relevance reply item source = Inr r \<and> compute_velocity item = Inr v \<and>
           score = \<lparr> sc_raw_item_id = ri_id item, computed_at = now,
                    relevance_score = r, novelty_score = compute_novelty now item,
                    velocity_score = v, cross_source_score = compute_cross_source st item,
                    signal_score = weighted_signal fl r v (compute_cross_source st item)
                                     (compute_novelty now item) \<rparr>"
  using assms unfolding score_item'_def Let_def
  by (auto split: sum.splits if_splits)

lemma float_rounding_exact: "float_rounding (\<lambda>x. x)"
  by (simp add: float_rounding_def)

lemma score_item'_example:
  "score_item' (\<lambda>x. x) AiUnavailable 0 one_item_store item_body_200 =
     Inr (item_body_200_score,
          one_item_store\<lparr> item_scores := [item_body_200_score],
                           raw_items := [item_body_200\<lparr> ri_status := ''scored'' \<rparr>] \<rparr>)"
  by (simp add: score_item'_def one_item_store_def empty_store_def feed_source_def
      item_body_200_def item_body_200_score_def compute_relevance_def
      compute_relevance_heuristic_def compute_velocity_def payload_has_def payload_get_def
      compute_cross_source_def compute_novelty_def weighted_signal_def weight_simps
      set_status_def Let_def)

text \<open>
  C3. Every score row that \<open>_score_item\<close> creates has its four components in
  \<open>[0, 1]\<close>, and its stored signal score differs from
  \<open>0.40 relevance + 0.20 velocity + 0.20 cross_source + 0.20 novelty\<close> by at most
  \<open>1e-9\<close>, whatever the roundings of the double arithmetic are.
\<close>

theorem score_item_components_in_range:
  assumes "float_rounding fl"
    and "score_item' fl reply now st item = Inr (score, st')"
  shows "0 \<le> relevance_score score \<and> relevance_score score \<le> 1 \<and>
         0 \<le> velocity_score score \<and> velocity_score score \<le> 1 \<and>
         0 \<le> cross_source_score score \<and> cross_source_score score \<le> 1 \<and>
         0 \<le> novelty_score score \<and> novelty_score score \<le> 1 \<and>
         \<bar>signal_score score -
            (0.40 * relevance_score score + 0.20 * velocity_score score +
             0.20 * cross_source_score score + 0.20 * novelty_score score)\<bar> \<le> 1 / 10 ^ 9"
proof -
  from score_item'_fields [OF assms(2)] obtain source r v where
    r: "compute_relevance reply item source = Inr r" and
    v: "compute_velocity item = Inr v" and
    s: "score = \<lparr> sc_raw_item_id = ri_id item, computed_at = now,
                    relevance_score = r, novelty_score = compute_novelty now item,
                    velocity_score = v, cross_source_score = compute_cross_source st item,
                    signal_score = weighted_signal fl r v (compute_cross_source st item)
                                     (compute_novelty now item) \<rparr>"
    by blast
  note rr = relevance_range [OF r] and vr = velocity_range [OF v]
    and cr = cross_source_range [of st item] and nr = novelty_range [of now item]
  have "\<bar>weighted_signal fl r v (compute_cross_source st item) (compute_novelty now item) -
          (0.40 * r + 0.20 * v + 0.20 * compute_cross_source st item +
           0.20 * compute_novelty now item)\<bar> \<le> 1 / 10 ^ 9"
    using rr vr cr nr by (intro weighted_signal_close [OF assms(1)]) simp_all
  with rr vr cr nr show ?thesis by (simp add: s)
qed

theorem score_item_components_in_range_witness:
  "float_rounding (\<lambda>x. x) \<and>
   score_item' (\<lambda>x. x) AiUnavailable 0 one_item_store item_body_200 =
     Inr (item_body_200_score,
          one_item_store\<lparr> item_scores := [item_body_200_score],
                           raw_items := [item_body_200\<lparr> ri_status := ''scored'' \<rparr>] \<rparr>) \<and>
   relevance_score item_body_200_score \<le> 1 \<and>
   \<bar>signal_score item_body_200_score -
      (0.40 * relevance_score item_body_200_score + 0.20 * velocity_score item_body_200_score +
       0.20 * cross_source_score item_body_200_score +
       0.20 * novelty_score item_body_200_score)\<bar> \<le> 1 / 10 ^ 9"
  using score_item_components_in_range [OF float_rounding_exact score_item'_example]
    float_rounding_exact score_item'_example
  by simp

text \<open>
  C2. The scoring batch selects the items whose status is \<open>extracted\<close>: an item
  that was never embedded and is in no cluster goes from \<open>extracted\<close> straight to
  \<open>scored\<close>. (The task that runs the batch documents it as scoring the items that
  have been clustered.)
\<close>

theorem score_all_scores_unclustered_item:
  "score_all (\<lambda>x. x) (\<lambda>item. AiUnavailable) 0 one_item_store =
     (one_item_store\<lparr> item_scores := [item_body_200_score],
                       raw_items := [item_body_200\<lparr> ri_status := ''scored'' \<rparr>] \<rparr>, 1, 0) \<and>
   ri_status item_body_200 = ''extracted'' \<and>
   cluster_members one_item_store = [] \<and>
   item_embeddings one_item_store = []"
proof -
  have sel: "take 200 (filter (\<lambda>r. ri_status r = ''extracted'' \<and>
                  \<not> (\<exists>s \<in> set (item_scores one_item_store). sc_raw_item_id s = ri_id r))
               (raw_items one_item_store)) = [item_body_200]"
    by (simp add: one_item_store_def empty_store_def item_body_200_def)
  show ?thesis
    unfolding score_all_def Let_def sel
    by (simp add: score_item'_example item_body_200_score_def
        scoring_high_signal_threshold_def)
      (simp add: one_item_store_def empty_store_def item_body_200_def)
qed

text \<open>
  C8, as the specification words it, fails on a body of exactly 200 characters:
  for a source of tier 3 and a title of 20 characters the code returns 0.6,
  where the boost for ``at least 200 characters'' would give 0.7.
\<close>

theorem relevance_heuristic_body_200_counterexample:
  "compute_relevance AiUnavailable item_body_200 feed_source = Inr (3/5) \<and>
   body_len item_body_200 = 200 \<and>
   claimed_relevance_heuristic item_body_200 feed_source = 7/10"
  by (simp add: compute_relevance_def compute_relevance_heuristic_def item_body_200_def
      feed_source_def claimed_relevance_heuristic_def body_len_def title_len_def)

text \<open>
  C8 (amended). When no LLM is configured, or the LLM call fails, the relevance
  of an item that has a title is its source's credibility tier divided by 5, plus
  0.1 if the body is longer than 200 characters, minus 0.1 if the title is
  shorter than 20 characters, clipped to \<open>[0, 1]\<close>.
\<close>

theorem relevance_heuristic_formula:
  assumes "ri_title item = Some t" and "reply = AiUnavailable \<or> reply = AiFails"
  shows "compute_relevance reply item source =
         Inr (max 0 (min 1 (real_of_int (s_credibility_tier source) / 5
                            + (if body_len item > 200 then 0.1 else 0)
                            - (if length t < 20 then 0.1 else 0))))"
  using assms
  by (auto simp: compute_relevance_def compute_relevance_heuristic_def compute_relevance_ai_def
      body_len_def Let_def split: option.splits)

theorem relevance_heuristic_formula_witness:
  "ri_title item_body_200 = Some (replicate 20 CHR ''t'') \<and>
   compute_relevance AiFails item_body_200 feed_source = Inr (3/5)"
  using relevance_heuristic_formula [of item_body_200 "replicate 20 CHR ''t''" AiFails feed_source]
  by (simp add: item_body_200_def feed_source_def body_len_def)


section \<open>Properties of the briefing composer\<close>

lemma get_user_signals_rows:
  assumes "sg \<in> set (get_user_signals n now st user preferences)"
  shows "\<exists>item score source.
           (item, score, source) \<in> set (signal_rows st) \<and> sg = to_signal (item, score, source) \<and>
           ri_fetched_at item \<ge> now - hours24 \<and>
           signal_score score \<ge> briefing_high_signal_threshold"
proof -
  from assms obtain item score source where
    "(item, score, source) \<in> set (signal_rows st)" "sg = to_signal (item, score, source)"
    "now - hours24 \<le> ri_fetched_at item" "briefing_high_signal_threshold \<le> signal_score score"
    by (auto simp: get_user_signals_def Let_def order_by_signal_desc_def
        split: option.splits if_splits dest!: in_set_takeD)
  then show ?thesis by blast
qed

lemma round2_ex: "round2 (11/20) = 11/20"
  by (simp add: round2_def)

lemma low_signals:
  "get_user_signals 10 100000 low_signal_store reader None =
     [\<lparr> sg_id = 11, sg_title = Some ''A story of modest signal'', sg_url = Some ''http://a'',
        sg_source = ''Feed'', sg_category = Some ''tech'', sg_published_at = None,
        sg_signal_score = 11/20, sg_content = ''body'' \<rparr>]"
  by (simp add: get_user_signals_def signal_rows_def low_signal_store_def empty_store_def
      low_signal_item_def low_signal_score_def feed_source_def hours24_def
      briefing_high_signal_threshold_def order_by_signal_desc_def to_signal_def round2_ex Let_def)

text \<open>
  C1. The composer's candidate query uses the threshold 0.5 of
  \<open>BriefingService\<close>, not the 0.6 of the scorer: an item whose only score row has
  signal 0.55, fetched an hour ago, is selected and linked to the briefing.
\<close>

theorem briefing_links_item_below_threshold:
  "generate_for_user NoClient (\<lambda>signals. []) 10 100000 low_signal_store 7 =
     Inr (Generated 12 7 1,
          low_signal_store\<lparr> briefings := [\<lparr> b_id = 12, scope = ScopeUser 7,
                                 period_start = 13600, period_end = 100000, summary_md = [] \<rparr>],
                              briefing_items := [low_signal_link],
                              next_uuid := 13 \<rparr>) \<and>
   bi_raw_item_id low_signal_link = Some (ri_id low_signal_item) \<and>
   map signal_score (filter (\<lambda>s. sc_raw_item_id s = ri_id low_signal_item)
                            (item_scores low_signal_store)) = [11/20] \<and>
   (11/20 :: real) < scoring_high_signal_threshold"
proof -
  let ?sig = "\<lparr> sg_id = 11, sg_title = Some ''A story of modest signal'', sg_url = Some ''http://a'',
        sg_source = ''Feed'', sg_category = Some ''tech'', sg_published_at = None,
        sg_signal_score = 11/20, sg_content = ''body'' \<rparr>"
  have u: "scalar_one_or_none (filter (\<lambda>u. u_id u = 7) (users low_signal_store)) = Inr (Some reader)"
    by (simp add: low_signal_store_def reader_def empty_store_def)
  have p: "scalar_one_or_none (filter (\<lambda>p. up_user_id p = 7) (user_preferences low_signal_store)) = Inr None"
    by (simp add: low_signal_store_def empty_store_def)
  have l: "link_items 12 [?sig] [Canonical 11] = [low_signal_link]"
    by (simp add: link_items_def link_item_def List.map_filter_def low_signal_link_def)
  have ok: "briefing_item_ok low_signal_store low_signal_link"
    by (simp add: briefing_item_ok_def low_signal_link_def low_signal_store_def empty_store_def
        low_signal_item_def)
  have f: "next_uuid low_signal_store = 12" "briefings low_signal_store = []"
    "briefing_items low_signal_store = []" "item_scores low_signal_store = [low_signal_score]"
    by (simp_all add: low_signal_store_def empty_store_def)
  have g: "generate_for_user NoClient (\<lambda>signals. []) 10 100000 low_signal_store 7 =
     Inr (Generated 12 7 1,
          low_signal_store\<lparr> briefings := [\<lparr> b_id = 12, scope = ScopeUser 7,
                                 period_start = 13600, period_end = 100000, summary_md = [] \<rparr>],
                              briefing_items := [low_signal_link],
                              next_uuid := 13 \<rparr>)"
    by (simp add: generate_for_user_def u p low_signals Let_def generate_briefing_content_def
        generate_fallback_briefing_def l ok f hours24_def)
  show ?thesis
    by (simp add: g f low_signal_link_def low_signal_item_def low_signal_score_def
        scoring_high_signal_threshold_def)
qed

text \<open>
  C10. When the candidate selection for the user is empty, \<open>generate_for_user\<close>
  returns the error ``No high-signal items available'' and the store it leaves
  is the store it was given: no briefing and no briefing item is written.
\<close>

theorem generate_for_user_no_signals:
  assumes "scalar_one_or_none (filter (\<lambda>u. u_id u = user_id) (users st)) = Inr (Some user)"
    and "scalar_one_or_none (filter (\<lambda>p. up_user_id p = user_id) (user_preferences st)) = Inr preferences"
    and "get_user_signals max_items_per_briefing now st user preferences = []"
  shows "generate_for_user ai template max_items_per_briefing now st user_id =
           Inr (ErrorDict ''No high-signal items available'', st)"
  using assms by (simp add: generate_for_user_def)

theorem generate_for_user_no_signals_witness:
  "get_user_signals 10 100000 reader_store reader None = [] \<and>
   generate_for_user LlmFails (\<lambda>signals. []) 10 100000 reader_store 7 =
     Inr (ErrorDict ''No high-signal items available'', reader_store) \<and>
   briefings reader_store = [] \<and> briefing_items reader_store = []"
proof -
  have u: "scalar_one_or_none (filter (\<lambda>u. u_id u = 7) (users reader_store)) = Inr (Some reader)"
    by (simp add: reader_store_def reader_def empty_store_def)
  have p: "scalar_one_or_none (filter (\<lambda>p. up_user_id p = 7) (user_preferences reader_store)) = Inr None"
    by (simp add: reader_store_def empty_store_def)
  have s: "get_user_signals 10 100000 reader_store reader None = []"
    by (simp add: get_user_signals_def signal_rows_def reader_store_def empty_store_def
        order_by_signal_desc_def Let_def)
  show ?thesis
    using generate_for_user_no_signals [OF u p s, of LlmFails "\<lambda>signals. []"] s
    by (simp add: reader_store_def empty_store_def)
qed


section \<open>Properties of the ingesters\<close>

lemma strip_headline: "strip ''A headline'' = ''A headline''"
  by (simp add: strip_def is_space_def)

lemma parse_one_entry: "parse_entry one_entry = Some one_entry_item"
  by (simp add: parse_entry_def one_entry_def one_entry_item_def py_or_def truthy_def
      strip_headline json_of_def Let_def)

lemma rss_fetch_one: "rss_fetch zero_limit_settings (Inr [one_entry]) = Inr [one_entry_item]"
  by (simp add: rss_fetch_def List.map_filter_def parse_one_entry)

lemma length_map_filter_le: "length (List.map_filter f xs) \<le> length xs"
  by (simp add: List.map_filter_def)

lemma hn_fetch_bounded:
  assumes "0 \<le> MAX_ITEMS_PER_SOURCE cfg" and "hn_fetch cfg listing item_api = Inr items"
  shows "int (length items) \<le> MAX_ITEMS_PER_SOURCE cfg"
proof -
  from assms(2) obtain ids where
    "items = List.map_filter (\<lambda>story_id. case fetch_story item_api story_id of
                                Inl e \<Rightarrow> None | Inr item \<Rightarrow> item)
                 (py_take (MAX_ITEMS_PER_SOURCE cfg) ids)"
    by (auto simp: hn_fetch_def split: sum.splits)
  then have "length items \<le> length (py_take (MAX_ITEMS_PER_SOURCE cfg) ids)"
    by (simp add: length_map_filter_le)
  also have "\<dots> \<le> nat (MAX_ITEMS_PER_SOURCE cfg)"
    using assms(1) by (simp add: py_take_def)
  finally show ?thesis using assms(1) by linarith
qed

lemma rss_fetch_bounded:
  "rss_fetch cfg response = Inr items \<Longrightarrow> length items \<le> 100"
  by (auto simp: rss_fetch_def split: sum.splits intro: order_trans [OF length_map_filter_le])

text \<open>
  C6. The feed ingester does not read \<open>MAX_ITEMS_PER_SOURCE\<close>: with the setting at
  0, a feed with one well-formed entry yields one normalized item, and the run
  inserts one row. (The Hacker News ingester slices the listing by the setting,
  \<open>hn_fetch_bounded\<close>; the feed ingester slices by the literal 100,
  \<open>rss_fetch_bounded\<close>.)
\<close>

theorem rss_ignores_max_items_per_source:
  "MAX_ITEMS_PER_SOURCE zero_limit_settings = 0 \<and>
   rss_fetch zero_limit_settings (Inr [one_entry]) = Inr [one_entry_item] \<and>
   ingest (\<lambda>source. rss_fetch zero_limit_settings (Inr [one_entry])) (\<lambda>item. False) 500
       feed_only_store 3 =
     Inr (Ingested 1 1,
          feed_only_store\<lparr> raw_items := [new_raw_item feed_only_store 500 3 one_entry_item],
                            next_uuid := 5 \<rparr>)"
proof -
  have src: "scalar_one_or_none (filter (\<lambda>s. s_id s = 3) (sources feed_only_store)) = Inr (Some feed_source)"
    by (simp add: feed_only_store_def empty_store_def feed_source_def)
  have f: "raw_items feed_only_store = []" "next_uuid feed_only_store = 4"
    by (simp_all add: feed_only_store_def empty_store_def)
  have en: "s_enabled feed_source" by (simp add: feed_source_def)
  have m: "MAX_ITEMS_PER_SOURCE zero_limit_settings = 0"
    by (simp add: zero_limit_settings_def)
  show ?thesis
    by (simp add: m ingest_def src en rss_fetch_one item_exists_def f)
qed









section \<open>Properties of the embedder\<close>

text \<open>
  C9, as the specification words it, fails: without a key, two runs over the
  same text, one after the other, store different vectors, since the second
  run draws the generator's next samples.
\<close>

theorem dummy_embedding_two_runs_counterexample:
  "fst (generate_embedding no_key_settings (Inl HTTPError) counting_rng ''same text'') \<noteq>
   fst (generate_embedding no_key_settings (Inl HTTPError)
          (snd (generate_embedding no_key_settings (Inl HTTPError) counting_rng ''same text''))
          ''same text'')"
proof -
  have "map counting_rng [0 ..< dimension] \<noteq> map (\<lambda>i. counting_rng (i + dimension)) [0 ..< dimension]"
  proof
    assume "map counting_rng [0 ..< dimension] = map (\<lambda>i. counting_rng (i + dimension)) [0 ..< dimension]"
    then have "\<forall>i \<in> set [0 ..< dimension]. counting_rng i = counting_rng (i + dimension)"
      by (simp only: map_eq_conv)
    moreover have "0 \<in> set [0 ..< dimension]" by (simp add: dimension_def)
    ultimately have "counting_rng 0 = counting_rng (0 + dimension)" by blast
    then show False by (simp add: counting_rng_def dimension_def)
  qed
  then show ?thesis
    by (simp add: generate_embedding_def generate_dummy_embedding_def randn_def
        no_key_settings_def truthy_def)
qed

lemma trans_sym: "a = c \<Longrightarrow> b = c \<Longrightarrow> a = b"
  by simp

text \<open>
  C9 (amended). Without a key the vector is the next 1536 samples of the
  process-wide generator, whatever the text and the provider. Two runs yield
  the same vector exactly when the generator delivers the same 1536 samples to
  both; a run that follows another yields the same vector exactly when the
  generator's next 1536 samples repeat the 1536 before them.
\<close>

theorem dummy_embedding_from_generator:
  assumes "\<not> truthy (OPENAI_API_KEY cfg)"
  shows "generate_embedding cfg provider g text =
           (Some (map g [0 ..< dimension]), (\<lambda>i. g (i + dimension))) \<and>
         length (map g [0 ..< dimension]) = 1536 \<and>
         (fst (generate_embedding cfg provider g text) =
            fst (generate_embedding cfg provider' g' text')
          \<longleftrightarrow> (\<forall>i < dimension. g i = g' i)) \<and>
         (fst (generate_embedding cfg provider g text) =
            fst (generate_embedding cfg provider' (snd (generate_embedding cfg provider g text)) text')
          \<longleftrightarrow> (\<forall>i < dimension. g i = g (i + dimension)))"
proof -
  have run: "\<And>p h t. generate_embedding cfg p h t =
               (Some (map h [0 ..< dimension]), (\<lambda>i. h (i + dimension)))"
    using assms
    by (simp add: generate_embedding_def generate_dummy_embedding_def randn_def)
  show ?thesis
    unfolding run by (auto simp: map_eq_conv dimension_def)
qed

theorem dummy_embedding_from_generator_witness:
  "\<not> truthy (OPENAI_API_KEY no_key_settings) \<and>
   generate_embedding no_key_settings (Inl HTTPError) counting_rng ''one text'' =
   generate_embedding no_key_settings (Inr []) counting_rng ''another text'' \<and>
   fst (generate_embedding no_key_settings (Inl HTTPError) counting_rng ''one text'') =
   fst (generate_embedding no_key_settings (Inl HTTPError)
          (\<lambda>i. if i < 1536 then real i else 0) ''one text'')"
proof -
  have k: "\<not> truthy (OPENAI_API_KEY no_key_settings)"
    by (simp add: no_key_settings_def truthy_def)
  have s: "\<forall>i < dimension. counting_rng i = (\<lambda>i. if i < 1536 then real i else 0) i"
    by (simp add: counting_rng_def dimension_def)
  note t1 = dummy_embedding_from_generator [OF k, of "Inl HTTPError" counting_rng "''one text''"
      "Inl HTTPError" "\<lambda>i. if i < 1536 then real i else 0" "''one text''"]
  note t2 = dummy_embedding_from_generator [OF k, of "Inr []" counting_rng "''another text''"]
  have a: "generate_embedding no_key_settings (Inl HTTPError) counting_rng ''one text'' =
           generate_embedding no_key_settings (Inr []) counting_rng ''another text''"
    using conjunct1 [OF t1] conjunct1 [OF t2] by (rule trans_sym)
  have b: "fst (generate_embedding no_key_settings (Inl HTTPError) counting_rng ''one text'') =
           fst (generate_embedding no_key_settings (Inl HTTPError)
                  (\<lambda>i. if i < 1536 then real i else 0) ''one text'')"
    using t1 s by blast
  from k a b show ?thesis by blast
qed


section \<open>Properties of the clusterer\<close>

lemma scalar_one_or_none_Some:
  "scalar_one_or_none (filter P xs) = Inr (Some x) \<Longrightarrow> x \<in> set xs \<and> P x"
proof -
  assume a: "scalar_one_or_none (filter P xs) = Inr (Some x)"
  then have "filter P xs = [x]"
    by (cases "filter P xs" rule: scalar_one_or_none.cases) auto
  then have "x \<in> set (filter P xs)" by simp
  then show ?thesis by simp
qed

lemma similarity_query_ignores_published_at:
  "similarity_query cosine
     (st\<lparr> raw_items := map (\<lambda>r. r\<lparr> ri_published_at := f r \<rparr>) (raw_items st) \<rparr>) t i c th
   = similarity_query cosine st t i c th"
  by (simp add: similarity_query_def semantic_candidates_def filter_map comp_def)

lemma candidates_above_threshold:
  "(i, s) \<in> set (semantic_candidates cosine st t item_id c th) \<Longrightarrow> th \<le> s"
  by (auto simp: semantic_candidates_def)

lemma similarity_query_head_greatest:
  assumes "similarity_query cosine st t item_id c th = (best, sim) # rest"
    and "(i, s) \<in> set (semantic_candidates cosine st t item_id c th)"
  shows "s \<le> sim"
proof -
  let ?k = "\<lambda>(i, s). - (s::real)"
  let ?L = "sort_key ?k (semantic_candidates cosine st t item_id c th)"
  from assms(1) have tk: "take 5 ?L = (best, sim) # rest" by (simp add: similarity_query_def)
  then obtain L' where L: "?L = (best, sim) # L'" by (cases ?L) auto
  have "sorted (map ?k ?L)" by (rule sorted_sort_key)
  with L have "\<forall>y \<in> set L'. ?k (best, sim) \<le> ?k y" by simp
  moreover have "(i, s) \<in> set ?L" using assms(2) by simp
  ultimately have "?k (best, sim) \<le> ?k (i, s)" unfolding L by auto
  then show ?thesis by simp
qed

lemma insert_member_members:
  "insert_member m st = Inr st' \<Longrightarrow>
     cluster_members st' = cluster_members st @ [m] \<and> clusters st' = clusters st \<and>
     next_uuid st' = next_uuid st \<and> raw_items st' = raw_items st"
  by (auto simp: insert_member_def split: if_splits)

lemma add_to_cluster_joins:
  assumes "add_to_cluster st duplicate_item canonical_item sim = Inr st'"
  shows "\<exists>cid. \<lparr> cm_cluster_id = cid, cm_raw_item_id = ri_id duplicate_item,
                  is_canonical = False, similarity = Some sim \<rparr> \<in> set (cluster_members st') \<and>
               (\<exists>m \<in> set (cluster_members st').
                  cm_cluster_id m = cid \<and> cm_raw_item_id m = ri_id canonical_item \<and> is_canonical m)"
proof (cases "scalar_one_or_none
             (filter (\<lambda>m. cm_raw_item_id m = ri_id canonical_item \<and> is_canonical m)
                     (cluster_members st))")
  case (Inl e)
  with assms show ?thesis by (simp add: add_to_cluster_def)
next
  case (Inr existing)
  show ?thesis
  proof (cases existing)
    case (Some m)
    from Inr Some scalar_one_or_none_Some
    have m: "m \<in> set (cluster_members st)" "cm_raw_item_id m = ri_id canonical_item" "is_canonical m"
      by fastforce+
    from assms Inr Some have
      "insert_member \<lparr> cm_cluster_id = cm_cluster_id m, cm_raw_item_id = ri_id duplicate_item,
                  is_canonical = False, similarity = Some sim \<rparr> st = Inr st'"
      by (simp add: add_to_cluster_def)
    from insert_member_members [OF this] m show ?thesis
      by (intro exI [of _ "cm_cluster_id m"]) auto
  next
    case None
    obtain cid st1 where c: "create_cluster (ri_id canonical_item) st = (cid, st1)"
      by (cases "create_cluster (ri_id canonical_item) st")
    from assms Inr None c obtain st2 where
      i1: "insert_member \<lparr> cm_cluster_id = cid, cm_raw_item_id = ri_id canonical_item,
                                   is_canonical = True, similarity = Some 1.0 \<rparr> st1 = Inr st2"
      and i2: "insert_member \<lparr> cm_cluster_id = cid, cm_raw_item_id = ri_id duplicate_item,
                  is_canonical = False, similarity = Some sim \<rparr> st2 = Inr st'"
      by (auto simp: add_to_cluster_def split: sum.splits)
    from insert_member_members [OF i1] insert_member_members [OF i2] show ?thesis
      by (intro exI [of _ cid]) auto
  qed
qed





lemma semantic_join_first_row:
  assumes "check_semantic_duplicate cosine now st item_id = Inr (True, st')"
  shows "\<exists>e best sim rest cid.
           scalar_one_or_none (filter (\<lambda>e. ie_raw_item_id e = item_id) (item_embeddings st))
             = Inr (Some e) \<and>
           similarity_query cosine st (embedding e) item_id
             (now - days time_window_days) semantic_threshold = (best, sim) # rest \<and>
           (\<forall>(i, s) \<in> set (semantic_candidates cosine st (embedding e) item_id
                              (now - days time_window_days) semantic_threshold).
              semantic_threshold \<le> s \<and> s \<le> sim) \<and>
           \<lparr> cm_cluster_id = cid, cm_raw_item_id = item_id,
             is_canonical = False, similarity = Some sim \<rparr> \<in> set (cluster_members st') \<and>
           (\<exists>m \<in> set (cluster_members st').
              cm_cluster_id m = cid \<and> cm_raw_item_id m = best \<and> is_canonical m) \<and>
           (\<forall>f. similarity_query cosine
                  (st\<lparr> raw_items := map (\<lambda>r. r\<lparr> ri_published_at := f r \<rparr>) (raw_items st) \<rparr>)
                  (embedding e) item_id (now - days time_window_days) semantic_threshold
                = (best, sim) # rest)"
proof -
  let ?cut = "now - days time_window_days"
  from assms obtain e best sim rest canonical item where
    e: "scalar_one_or_none (filter (\<lambda>e. ie_raw_item_id e = item_id) (item_embeddings st))
          = Inr (Some e)"
    and q: "similarity_query cosine st (embedding e) item_id ?cut semantic_threshold
              = (best, sim) # rest"
    and c: "scalar_one_or_none (filter (\<lambda>r. ri_id r = best) (raw_items st)) = Inr (Some canonical)"
    and i: "scalar_one_or_none (filter (\<lambda>r. ri_id r = item_id) (raw_items st)) = Inr (Some item)"
    and a: "add_to_cluster st item canonical sim = Inr st'"
    by (auto simp: check_semantic_duplicate_def Let_def
        split: sum.splits option.splits list.splits prod.splits)
  from scalar_one_or_none_Some [OF c] have cb: "ri_id canonical = best" by simp
  from scalar_one_or_none_Some [OF i] have ib: "ri_id item = item_id" by simp
  from add_to_cluster_joins [OF a] obtain cid where
    j: "\<lparr> cm_cluster_id = cid, cm_raw_item_id = item_id,
             is_canonical = False, similarity = Some sim \<rparr> \<in> set (cluster_members st')"
       "\<exists>m \<in> set (cluster_members st').
              cm_cluster_id m = cid \<and> cm_raw_item_id m = best \<and> is_canonical m"
    unfolding cb ib by blast
  have g: "\<forall>(i, s) \<in> set (semantic_candidates cosine st (embedding e) item_id ?cut semantic_threshold).
              semantic_threshold \<le> s \<and> s \<le> sim"
    using similarity_query_head_greatest [OF q] candidates_above_threshold by fastforce
  have p: "\<forall>f. similarity_query cosine
                  (st\<lparr> raw_items := map (\<lambda>r. r\<lparr> ri_published_at := f r \<rparr>) (raw_items st) \<rparr>)
                  (embedding e) item_id ?cut semantic_threshold = (best, sim) # rest"
    by (simp add: similarity_query_ignores_published_at q)
  from e q g j p show ?thesis by blast
qed









lemma one_canonical_iff:
  "one_canonical st cid \<longleftrightarrow> (\<exists>m. canonical_members st cid = [m] \<and> similarity m = Some 1)"
  by (auto simp: one_canonical_def split: list.splits)

lemma cluster_inv_iff:
  "cluster_inv st \<longleftrightarrow>
     (\<forall>c \<in> set (clusters st). c_id c < next_uuid st) \<and>
     (\<forall>m \<in> set (cluster_members st). cm_cluster_id m < next_uuid st) \<and>
     (\<forall>c \<in> set (clusters st).
        if c_status c = MERGED then canonical_members st (c_id c) = []
        else one_canonical st (c_id c))"
  by (auto simp: cluster_inv_def cluster_store_wf_def canonical_invariant_def list_all_iff)

lemma canonical_members_append:
  "cluster_members st' = cluster_members st @ [m] \<Longrightarrow>
   canonical_members st' cid =
     canonical_members st cid @ (if cm_cluster_id m = cid \<and> is_canonical m then [m] else [])"
  by (simp add: canonical_members_def)

lemma canonical_members_fresh:
  "\<forall>m \<in> set (cluster_members st). cm_cluster_id m < n \<Longrightarrow> canonical_members st n = []"
  by (auto simp: canonical_members_def filter_empty_conv)

lemma one_canonical_cong:
  "canonical_members st' cid = canonical_members st cid \<Longrightarrow>
   one_canonical st' cid = one_canonical st cid"
  by (simp add: one_canonical_def)

lemma insert_noncanonical_inv:
  assumes ins: "insert_member m st = Inr st'" and nc: "\<not> is_canonical m"
    and lt: "cm_cluster_id m < next_uuid st" and inv: "cluster_inv st"
  shows "cluster_inv st'"
proof -
  note f = insert_member_members [OF ins]
  have cm: "\<And>cid. canonical_members st' cid = canonical_members st cid"
    using canonical_members_append [of st' st m] f nc by simp
  show ?thesis
    using inv lt unfolding cluster_inv_iff
    by (simp add: f cm one_canonical_cong [OF cm])
qed

lemma new_canonical_inv:
  assumes inv: "cluster_inv st"
    and cr: "create_cluster item_id st = (cid, st1)"
    and ins: "insert_member \<lparr> cm_cluster_id = cid, cm_raw_item_id = x,
                              is_canonical = True, similarity = Some 1.0 \<rparr> st1 = Inr st2"
  shows "cluster_inv st2 \<and> cid < next_uuid st2"
proof -
  let ?row = "\<lparr> cm_cluster_id = cid, cm_raw_item_id = x,
                 is_canonical = True, similarity = Some (1.0::real) \<rparr>"
  from cr have c: "cid = next_uuid st"
    "clusters st1 = clusters st @ [\<lparr> c_id = cid, canonical_item_id = item_id, c_status = OPEN \<rparr>]"
    "cluster_members st1 = cluster_members st" "next_uuid st1 = Suc (next_uuid st)"
    by (auto simp: create_cluster_def)
  note f = insert_member_members [OF ins]
  have ms: "cluster_members st2 = cluster_members st @ [?row]" using f c by simp
  have cm: "\<And>k. canonical_members st2 k = canonical_members st k @ (if k = cid then [?row] else [])"
    using canonical_members_append [of st2 st ?row] ms by auto
  have old: "\<forall>m \<in> set (cluster_members st). cm_cluster_id m < cid"
    using inv c(1) by (simp add: cluster_inv_iff)
  have fresh: "canonical_members st cid = []"
    by (rule canonical_members_fresh [OF old])
  have cl: "\<forall>c \<in> set (clusters st). c_id c < cid"
    using inv c(1) by (simp add: cluster_inv_iff)
  have a: "\<forall>c \<in> set (clusters st2). c_id c < next_uuid st2"
    using cl f c by auto
  have b: "\<forall>m \<in> set (cluster_members st2). cm_cluster_id m < next_uuid st2"
    using old f c ms by auto
  have d: "\<forall>c \<in> set (clusters st2).
        if c_status c = MERGED then canonical_members st2 (c_id c) = []
        else one_canonical st2 (c_id c)"
  proof
    fix k assume k: "k \<in> set (clusters st2)"
    show "if c_status k = MERGED then canonical_members st2 (c_id k) = []
          else one_canonical st2 (c_id k)"
    proof (cases "k \<in> set (clusters st)")
      case True
      with cl have ne: "c_id k \<noteq> cid" by auto
      then have same: "canonical_members st2 (c_id k) = canonical_members st (c_id k)"
        by (simp add: cm)
      from inv True have "if c_status k = MERGED then canonical_members st (c_id k) = []
          else one_canonical st (c_id k)"
        unfolding cluster_inv_iff by blast
      then show ?thesis
        by (simp add: same one_canonical_cong [OF same])
    next
      case False
      with k f c have "k = \<lparr> c_id = cid, canonical_item_id = item_id, c_status = OPEN \<rparr>" by auto
      then show ?thesis by (simp add: one_canonical_iff cm fresh)
    qed
  qed
  from a b d c f show ?thesis by (simp add: cluster_inv_iff)
qed

lemma add_to_cluster_inv:
  assumes inv: "cluster_inv st" and a: "add_to_cluster st d c sim = Inr st'"
  shows "cluster_inv st'"
proof (cases "scalar_one_or_none
             (filter (\<lambda>m. cm_raw_item_id m = ri_id c \<and> is_canonical m) (cluster_members st))")
  case (Inl e)
  with a show ?thesis by (simp add: add_to_cluster_def)
next
  case (Inr existing)
  show ?thesis
  proof (cases existing)
    case (Some m)
    from Inr Some scalar_one_or_none_Some have "m \<in> set (cluster_members st)" by fastforce
    with inv have lt: "cm_cluster_id m < next_uuid st" by (simp add: cluster_inv_iff)
    from a Inr Some have
      "insert_member \<lparr> cm_cluster_id = cm_cluster_id m, cm_raw_item_id = ri_id d,
                  is_canonical = False, similarity = Some sim \<rparr> st = Inr st'"
      by (simp add: add_to_cluster_def)
    from insert_noncanonical_inv [OF this _ _ inv] lt show ?thesis by simp
  next
    case None
    obtain cid st1 where cr: "create_cluster (ri_id c) st = (cid, st1)"
      by (cases "create_cluster (ri_id c) st")
    from a Inr None cr obtain st2 where
      i1: "insert_member \<lparr> cm_cluster_id = cid, cm_raw_item_id = ri_id c,
                                   is_canonical = True, similarity = Some 1.0 \<rparr> st1 = Inr st2"
      and i2: "insert_member \<lparr> cm_cluster_id = cid, cm_raw_item_id = ri_id d,
                  is_canonical = False, similarity = Some sim \<rparr> st2 = Inr st'"
      by (auto simp: add_to_cluster_def split: sum.splits)
    from new_canonical_inv [OF inv cr i1] have "cluster_inv st2" "cid < next_uuid st2" by simp_all
    from insert_noncanonical_inv [OF i2 _ _ this(1)] this(2) show ?thesis by simp
  qed
qed

lemma check_exact_duplicate_inv:
  "cluster_inv st \<Longrightarrow> check_exact_duplicate now st item = Inr (b, st') \<Longrightarrow> cluster_inv st'"
  by (auto simp: check_exact_duplicate_def Let_def split: sum.splits option.splits
      dest: add_to_cluster_inv)

lemma check_semantic_duplicate_inv:
  "cluster_inv st \<Longrightarrow> check_semantic_duplicate cosine now st i = Inr (b, st') \<Longrightarrow> cluster_inv st'"
  by (auto simp: check_semantic_duplicate_def Let_def
      split: sum.splits option.splits list.splits prod.splits dest: add_to_cluster_inv)

lemma mark_clustered_inv: "cluster_inv (mark_clustered i st) = cluster_inv st"
  by (simp add: cluster_inv_iff mark_clustered_def canonical_members_def one_canonical_def)

lemma new_single_item_cluster_inv:
  "cluster_inv st \<Longrightarrow> new_single_item_cluster i st = Inr st' \<Longrightarrow> cluster_inv st'"
  using new_canonical_inv [of st i "next_uuid st" _ i st']
  by (auto simp: new_single_item_cluster_def create_cluster_def split: prod.splits)

lemma assign_cluster_inv:
  assumes inv: "cluster_inv st" and a: "assign_cluster cosine now st i = Inr (r, st')"
  shows "cluster_inv st'"
proof -
  from a consider "st' = st"
    | st1 where "check_semantic_duplicate cosine now st i = Inr (True, st1)" "st' = st1"
    | st1 st2 j where "check_semantic_duplicate cosine now st i = Inr (False, st1)"
        "new_single_item_cluster j st1 = Inr st2" "st' = mark_clustered j st2"
    by (auto simp: assign_cluster_def
        split: sum.splits option.splits prod.splits bool.splits)
  then show ?thesis
  proof cases
    case 1
    with inv show ?thesis by simp
  next
    case 2
    with check_semantic_duplicate_inv [OF inv] show ?thesis by blast
  next
    case 3
    from check_semantic_duplicate_inv [OF inv 3(1)] have "cluster_inv st1" .
    from new_single_item_cluster_inv [OF this 3(2)] show ?thesis
      by (simp add: 3(3) mark_clustered_inv)
  qed
qed

lemma cluster_pending_item_inv:
  assumes inv: "cluster_inv st" and a: "cluster_pending_item cosine now st item = Inr st'"
  shows "cluster_inv st'"
proof -
  from a consider
      st1 where "check_semantic_duplicate cosine now st (ri_id item) = Inr (True, st1)"
        "st' = mark_clustered (ri_id item) st1"
    | st1 st2 where "check_semantic_duplicate cosine now st (ri_id item) = Inr (False, st1)"
        "new_single_item_cluster (ri_id item) st1 = Inr st2"
        "st' = mark_clustered (ri_id item) st2"
    by (auto simp: cluster_pending_item_def split: sum.splits prod.splits bool.splits)
  then show ?thesis
  proof cases
    case 1
    from check_semantic_duplicate_inv [OF inv 1(1)] show ?thesis
      by (simp add: 1(2) mark_clustered_inv)
  next
    case 2
    from check_semantic_duplicate_inv [OF inv 2(1)] have "cluster_inv st1" .
    from new_single_item_cluster_inv [OF this 2(2)] show ?thesis
      by (simp add: 2(3) mark_clustered_inv)
  qed
qed

lemma cluster_loop_inv:
  "cluster_inv st \<Longrightarrow> cluster_loop cosine now items st = Inr st' \<Longrightarrow> cluster_inv st'"
proof (induction items arbitrary: st)
  case Nil
  then show ?case by simp
next
  case (Cons item items)
  show ?case
  proof (cases "cluster_pending_item cosine now st item")
    case (Inl e)
    with Cons show ?thesis by (cases e) auto
  next
    case (Inr st1)
    with Cons.prems have "cluster_inv st1" "cluster_loop cosine now items st1 = Inr st'"
      by (auto dest: cluster_pending_item_inv)
    then show ?thesis by (rule Cons.IH)
  qed
qed

lemma cluster_all_pending_inv:
  "cluster_inv st \<Longrightarrow> cluster_all_pending cosine now limit st = Inr st' \<Longrightarrow> cluster_inv st'"
  by (auto simp: cluster_all_pending_def Let_def dest: cluster_loop_inv)

lemma filter_moved:
  "filter (\<lambda>m. cm_cluster_id m = x \<and> is_canonical m)
     (map (\<lambda>m. if cm_cluster_id m = cid
               then m\<lparr> cm_cluster_id := t, is_canonical := False \<rparr> else m) ms)
   = (if x = cid then [] else filter (\<lambda>m. cm_cluster_id m = x \<and> is_canonical m) ms)"
  by (induction ms) auto

lemma merge_step_inv:
  assumes inv: "cluster_inv st" and mv: "move_members cid t st = Inr st'"
  shows "cluster_inv (mark_merged cid st')"
proof -
  let ?g = "\<lambda>m. if cm_cluster_id m = cid
               then m\<lparr> cm_cluster_id := t, is_canonical := False \<rparr> else m"
  from mv have ms: "cluster_members st' = map ?g (cluster_members st)"
    and cs: "clusters st' = clusters st" and nx: "next_uuid st' = next_uuid st"
    and fk: "(\<exists>m \<in> set (cluster_members st). cm_cluster_id m = cid) \<longrightarrow> t \<in> c_id ` set (clusters st)"
    by (auto simp: move_members_def Let_def split: if_splits)
  let ?st = "mark_merged cid st'"
  have cm: "\<And>x. canonical_members ?st x = (if x = cid then [] else canonical_members st x)"
    by (simp add: canonical_members_def mark_merged_def ms filter_moved)
  have a: "\<forall>c \<in> set (clusters ?st). c_id c < next_uuid ?st"
    using inv by (auto simp: cluster_inv_iff mark_merged_def cs nx)
  have tl: "(\<exists>m \<in> set (cluster_members st). cm_cluster_id m = cid) \<longrightarrow> t < next_uuid st"
    using fk inv by (auto simp: cluster_inv_iff)
  have b: "\<forall>m \<in> set (cluster_members ?st). cm_cluster_id m < next_uuid ?st"
    using inv tl by (auto simp: cluster_inv_iff mark_merged_def ms nx)
  have d: "\<forall>c \<in> set (clusters ?st).
        if c_status c = MERGED then canonical_members ?st (c_id c) = []
        else one_canonical ?st (c_id c)"
  proof
    fix k assume "k \<in> set (clusters ?st)"
    then obtain c where c: "c \<in> set (clusters st)"
      and k: "k = (if c_id c = cid then c\<lparr> c_status := MERGED \<rparr> else c)"
      by (auto simp: mark_merged_def cs)
    show "if c_status k = MERGED then canonical_members ?st (c_id k) = []
          else one_canonical ?st (c_id k)"
    proof (cases "c_id c = cid")
      case True
      with k show ?thesis by (simp add: cm)
    next
      case False
      with k have kc: "k = c" by simp
      have same: "canonical_members ?st (c_id c) = canonical_members st (c_id c)"
        using False by (simp add: cm)
      from inv c have "if c_status c = MERGED then canonical_members st (c_id c) = []
          else one_canonical st (c_id c)"
        unfolding cluster_inv_iff by blast
      then show ?thesis
        unfolding kc by (simp add: same one_canonical_cong [OF same])
    qed
  qed
  from a b d show ?thesis by (simp add: cluster_inv_iff)
qed

lemma merge_loop_inv:
  "cluster_inv st \<Longrightarrow> merge_loop t ids (st, k) = Inr (st', k') \<Longrightarrow> cluster_inv st'"
proof (induction ids arbitrary: st k)
  case Nil
  then show ?case by simp
next
  case (Cons cid ids)
  from Cons.prems(2) obtain st1 where
    mv: "move_members cid t st = Inr st1"
    and rest: "merge_loop t ids (mark_merged cid st1,
                 k + length (filter (\<lambda>m. cm_cluster_id m = t) (cluster_members st1))) = Inr (st', k')"
    by (auto split: sum.splits)
  from merge_step_inv [OF Cons.prems(1) mv] rest show ?case by (rule Cons.IH)
qed

lemma merge_clusters_inv:
  assumes inv: "cluster_inv st" and m: "merge_clusters ids st = Inr (r, st')"
  shows "cluster_inv st'"
proof -
  from m consider "st' = st"
    | t others k where "merge_loop t others (st, 0) = Inr (st', k)"
    by (auto simp: merge_clusters_def simp del: merge_loop.simps
        split: list.splits sum.splits prod.splits)
  then show ?thesis
  proof cases
    case 1
    with inv show ?thesis by simp
  next
    case 2
    from merge_loop_inv [OF inv 2] show ?thesis .
  qed
qed

lemma apply_cluster_op_inv:
  assumes inv: "cluster_inv st"
  shows "cluster_inv (apply_cluster_op cosine op st)"
proof (cases op)
  case (ExactDuplicate now item_id)
  show ?thesis
    using inv check_exact_duplicate_inv [OF inv]
    by (auto simp: apply_cluster_op_def ExactDuplicate split: option.splits sum.splits)
next
  case (AssignCluster now item_id)
  show ?thesis
    using inv assign_cluster_inv [OF inv]
    by (auto simp: apply_cluster_op_def AssignCluster split: sum.splits)
next
  case (ClusterAllPending now limit)
  show ?thesis
    using inv cluster_all_pending_inv [OF inv]
    by (auto simp: apply_cluster_op_def ClusterAllPending split: sum.splits)
next
  case (MergeClusters ids)
  show ?thesis
    using inv merge_clusters_inv [OF inv]
    by (auto simp: apply_cluster_op_def MergeClusters split: sum.splits)
qed

lemma apply_cluster_ops_inv:
  "cluster_inv st \<Longrightarrow> cluster_inv (apply_cluster_ops cosine ops st)"
  by (induction ops arbitrary: st) (auto intro: apply_cluster_op_inv)

lemma two_clusters_built:
  "apply_cluster_ops constant_cosine [AssignCluster 1000 41, AssignCluster 1000 42] two_item_store
     = two_clusters_store"
  by (simp add: apply_cluster_op_def assign_cluster_def check_semantic_duplicate_def
      new_single_item_cluster_def create_cluster_def insert_member_def member_key_def
      mark_clustered_def set_status_def two_item_store_def two_clusters_store_def
      empty_store_def plain_item_def)

lemma two_clusters_merge:
  "apply_cluster_op constant_cosine (MergeClusters [50, 51]) two_clusters_store = merged_store"
  by (simp add: apply_cluster_op_def merge_clusters_def move_members_def mark_merged_def
      member_key_def two_clusters_store_def merged_store_def two_item_store_def empty_store_def
      Let_def)

lemma merged_built:
  "apply_cluster_ops constant_cosine
     [AssignCluster 1000 41, AssignCluster 1000 42, MergeClusters [50, 51]] two_item_store
     = merged_store"
  using two_clusters_built two_clusters_merge by simp

text \<open>
  C4, as the specification words it, fails: after two single-item clusters are
  merged, the cluster that was merged away is still a row of \<open>clusters\<close> and has
  no member at all, hence no canonical one.
\<close>

theorem merged_cluster_without_canonical_counterexample:
  "every_cluster_has_one_canonical
     (apply_cluster_ops constant_cosine [AssignCluster 1000 41, AssignCluster 1000 42]
        two_item_store) \<and>
   \<not> every_cluster_has_one_canonical
     (apply_cluster_ops constant_cosine
        [AssignCluster 1000 41, AssignCluster 1000 42, MergeClusters [50, 51]] two_item_store) \<and>
   canonical_members
     (apply_cluster_ops constant_cosine
        [AssignCluster 1000 41, AssignCluster 1000 42, MergeClusters [50, 51]] two_item_store) 51
     = []"
  unfolding merged_built two_clusters_built
  by (simp add: every_cluster_has_one_canonical_def one_canonical_def canonical_members_def
      merged_store_def two_clusters_store_def two_item_store_def empty_store_def)

text \<open>
  C4 (amended). After any sequence of clustering operations (exact-duplicate
  join, semantic-duplicate join, new-cluster creation, \<open>merge_clusters\<close>), started
  from cluster tables whose ids were handed out by the id counter and which
  satisfy the same property, every cluster that is not marked merged has
  exactly one canonical member, of similarity 1.0, and every cluster marked
  merged has none.
\<close>

theorem canonical_member_invariant:
  assumes "cluster_store_wf st" and "canonical_invariant st"
  shows "canonical_invariant (apply_cluster_ops cosine ops st)"
  using apply_cluster_ops_inv [of st cosine ops] assms by (simp add: cluster_inv_def)

theorem canonical_member_invariant_witness:
  "cluster_store_wf two_item_store \<and> canonical_invariant two_item_store \<and>
   apply_cluster_ops constant_cosine
     [AssignCluster 1000 41, AssignCluster 1000 42, MergeClusters [50, 51]] two_item_store
     = merged_store \<and>
   canonical_invariant merged_store"
proof -
  have wf: "cluster_store_wf two_item_store"
    by (simp add: cluster_store_wf_def two_item_store_def empty_store_def)
  have inv: "canonical_invariant two_item_store"
    by (simp add: canonical_invariant_def two_item_store_def empty_store_def)
  from canonical_member_invariant [OF wf inv, of constant_cosine
      "[AssignCluster 1000 41, AssignCluster 1000 42, MergeClusters [50, 51]]"]
  show ?thesis using wf inv merged_built by simp
qed

end
